theory Spec2Isabelle
  imports Complex_Main "HOL-Library.Char_ord" "HOL-Library.List_Lexorder"
begin

section \<open>Numbers, strings and dictionaries\<close>

text \<open>
  The scripts compute with Python floats. The embedding computes with exact reals, so a
  theorem about coordinates holds for the formulas of the source up to the rounding of
  floating-point arithmetic; \<open>nan\<close> and \<open>inf\<close> have no counterpart here.

  Python's builtin \<open>float(s)\<close> is a parameter \<open>pf\<close> of every function that parses:
  it returns \<open>None\<close> where \<open>float\<close> raises \<open>ValueError\<close>.
\<close>

type_synonym matrix = "real \<times> real \<times> real \<times> real \<times> real \<times> real"
type_synonym bounds = "real \<times> real \<times> real \<times> real"
type_synonym point = "real \<times> real"
type_synonym float_parser = "string \<Rightarrow> real option"

text \<open>\<open>str.split()\<close> without arguments: the maximal runs of non-whitespace characters
  (the ASCII whitespace characters of Python's \<open>str.isspace\<close>).\<close>

definition is_space :: "char \<Rightarrow> bool" where
  "is_space c = (c \<in> set [CHR 0x09, CHR 0x0A, CHR 0x0B, CHR 0x0C, CHR 0x0D,
                            CHR 0x1C, CHR 0x1D, CHR 0x1E, CHR 0x1F, CHR 0x20])"

fun split_acc :: "string \<Rightarrow> string \<Rightarrow> string list" where
  "split_acc cur [] = (if cur = [] then [] else [rev cur])"
| "split_acc cur (c # cs) =
     (if is_space c then (if cur = [] then split_acc [] cs else rev cur # split_acc [] cs)
      else split_acc (c # cur) cs)"

definition py_split :: "string \<Rightarrow> string list" where
  "py_split s = split_acc [] s"

text \<open>Truthiness of an optional string: \<open>None\<close> and the empty string are false.\<close>

fun truthy :: "string option \<Rightarrow> bool" where
  "truthy None = False"
| "truthy (Some s) = (s \<noteq> [])"

text \<open>A Python dictionary keeps its keys in insertion order; assigning to a key that is
  present keeps the key's place.\<close>

type_synonym ('k, 'v) dict = "('k \<times> 'v) list"

definition dict_get :: "('k, 'v) dict \<Rightarrow> 'k \<Rightarrow> 'v option" where
  "dict_get d k = map_of d k"

fun dict_set :: "('k, 'v) dict \<Rightarrow> 'k \<Rightarrow> 'v \<Rightarrow> ('k, 'v) dict" where
  "dict_set [] k v = [(k, v)]"
| "dict_set ((k', v') # d) k v =
     (if k' = k then (k, v) # d else (k', v') # dict_set d k v)"

definition dict_keys :: "('k, 'v) dict \<Rightarrow> 'k list" where
  "dict_keys d = map fst d"

section \<open>Transforms and boxes\<close>

definition identity_matrix :: matrix where
  "identity_matrix = (1, 0, 0, 1, 0, 0)"

definition zero_bounds :: bounds where
  "zero_bounds = (0, 0, 0, 0)"

definition parse_transform_matrix :: "float_parser \<Rightarrow> string option \<Rightarrow> matrix" where
  "parse_transform_matrix pf transform_str =
     (case transform_str of
        None \<Rightarrow> identity_matrix
      | Some s \<Rightarrow>
          if s = [] then identity_matrix
          else (case those (map pf (py_split s)) of
                  Some [a, b, c, d, tx, ty] \<Rightarrow> (a, b, c, d, tx, ty)
                | _ \<Rightarrow> identity_matrix))"

definition parse_geometric_bounds :: "float_parser \<Rightarrow> string option \<Rightarrow> bounds" where
  "parse_geometric_bounds pf bounds_str =
     (case bounds_str of
        None \<Rightarrow> zero_bounds
      | Some s \<Rightarrow>
          if s = [] then zero_bounds
          else (case those (map pf (py_split s)) of
                  Some [y1, x1, y2, x2] \<Rightarrow> (y1, x1, y2, x2)
                | _ \<Rightarrow> zero_bounds))"

fun multiply_matrices :: "matrix \<Rightarrow> matrix \<Rightarrow> matrix" where
  "multiply_matrices (a1, b1, c1, d1, tx1, ty1) (a2, b2, c2, d2, tx2, ty2) =
     (a1 * a2 + c1 * b2, b1 * a2 + d1 * b2, a1 * c2 + c1 * d2, b1 * c2 + d1 * d2,
      a1 * tx2 + c1 * ty2 + tx1, b1 * tx2 + d1 * ty2 + ty1)"

fun apply_transform_to_point :: "real \<Rightarrow> real \<Rightarrow> matrix \<Rightarrow> point" where
  "apply_transform_to_point x y (a, b, c, d, tx, ty) =
     (a * x + c * y + tx, b * x + d * y + ty)"

fun get_global_corners :: "bounds \<Rightarrow> matrix \<Rightarrow> point list" where
  "get_global_corners (y1, x1, y2, x2) item_global_matrix =
     [apply_transform_to_point x1 y1 item_global_matrix,
      apply_transform_to_point x2 y1 item_global_matrix,
      apply_transform_to_point x1 y2 item_global_matrix,
      apply_transform_to_point x2 y2 item_global_matrix]"

record aabb =
  aabb_x1 :: real
  aabb_y1 :: real
  aabb_x2 :: real
  aabb_y2 :: real

definition zero_aabb :: aabb where
  "zero_aabb = \<lparr>aabb_x1 = 0, aabb_y1 = 0, aabb_x2 = 0, aabb_y2 = 0\<rparr>"

text \<open>Python's \<open>min\<close> and \<open>max\<close> of a non-empty list.\<close>

fun min_list_real :: "real \<Rightarrow> real list \<Rightarrow> real" where
  "min_list_real m [] = m"
| "min_list_real m (x # xs) = min_list_real (min m x) xs"

fun max_list_real :: "real \<Rightarrow> real list \<Rightarrow> real" where
  "max_list_real m [] = m"
| "max_list_real m (x # xs) = max_list_real (max m x) xs"

definition get_axis_aligned_bounding_box :: "point list \<Rightarrow> aabb" where
  "get_axis_aligned_bounding_box corners =
     (case corners of
        [] \<Rightarrow> zero_aabb
      | p # ps \<Rightarrow>
          \<lparr>aabb_x1 = min_list_real (fst p) (map fst ps),
           aabb_y1 = min_list_real (snd p) (map snd ps),
           aabb_x2 = max_list_real (fst p) (map fst ps),
           aabb_y2 = max_list_real (snd p) (map snd ps)\<rparr>)"

definition get_item_center :: "aabb \<Rightarrow> point" where
  "get_item_center global_aabb =
     ((aabb_x1 global_aabb + aabb_x2 global_aabb) / 2,
      (aabb_y1 global_aabb + aabb_y2 global_aabb) / 2)"

definition is_point_in_rect :: "real \<Rightarrow> real \<Rightarrow> real \<Rightarrow> real \<Rightarrow> real \<Rightarrow> real \<Rightarrow> bool" where
  "is_point_in_rect px py rect_y1 rect_x1 rect_y2 rect_x2 =
     ((rect_x1 \<le> px \<and> px \<le> rect_x2) \<and> (rect_y1 \<le> py \<and> py \<le> rect_y2))"

section \<open>Pages\<close>

record page_info =
  page_id :: string
  page_name :: string
  page_local_bounds :: bounds
  page_global_matrix :: matrix
  page_global_aabb :: aabb

text \<open>The constructor of class \<open>PageGeometricInfo\<close> in \<open>extract_from_idml.py\<close>.\<close>

definition PageGeometricInfo ::
  "float_parser \<Rightarrow> string \<Rightarrow> string \<Rightarrow> string option \<Rightarrow> string option \<Rightarrow> matrix \<Rightarrow> page_info" where
  "PageGeometricInfo pf self_id name page_local_transform_str page_local_bounds_str
       spread_base_transform_matrix =
     (let page_local_matrix = parse_transform_matrix pf page_local_transform_str;
          local_bounds = parse_geometric_bounds pf page_local_bounds_str;
          global_matrix = multiply_matrices spread_base_transform_matrix page_local_matrix;
          page_global_corners = get_global_corners local_bounds global_matrix
      in \<lparr>page_id = self_id, page_name = name, page_local_bounds = local_bounds,
          page_global_matrix = global_matrix,
          page_global_aabb = get_axis_aligned_bounding_box page_global_corners\<rparr>)"

text \<open>The constructor of the class of the same name in \<open>extract_box.py\<close> (and
  \<open>test_box.py\<close>). It takes no transform of the sheet; its field \<open>matrix\<close> is the
  page's own \<open>ItemTransform\<close>, kept here in \<open>page_global_matrix\<close>.\<close>

definition PageGeometricInfo_box ::
  "float_parser \<Rightarrow> string \<Rightarrow> string \<Rightarrow> string option \<Rightarrow> string option \<Rightarrow> page_info" where
  "PageGeometricInfo_box pf self_id name page_matrix_str page_bounds_str =
     (let matrix = parse_transform_matrix pf page_matrix_str;
          local_bounds = parse_geometric_bounds pf page_bounds_str;
          page_global_corners = get_global_corners local_bounds matrix
      in \<lparr>page_id = self_id, page_name = name, page_local_bounds = local_bounds,
          page_global_matrix = matrix,
          page_global_aabb = get_axis_aligned_bounding_box page_global_corners\<rparr>)"

fun find_page_for_item_center :: "real \<Rightarrow> real \<Rightarrow> page_info list \<Rightarrow> string option" where
  "find_page_for_item_center item_center_x item_center_y [] = None"
| "find_page_for_item_center item_center_x item_center_y (page_info # geometric_pages) =
     (if is_point_in_rect item_center_x item_center_y
           (aabb_y1 (page_global_aabb page_info)) (aabb_x1 (page_global_aabb page_info))
           (aabb_y2 (page_global_aabb page_info)) (aabb_x2 (page_global_aabb page_info))
      then Some (page_id page_info)
      else find_page_for_item_center item_center_x item_center_y geometric_pages)"

section \<open>XML elements\<close>

text \<open>An element of an \<open>ElementTree\<close>: its tag (with the namespace in braces, when it
  has one), its attributes and its child elements in document order.\<close>

datatype element = Element (tag: string) (attrib: "(string \<times> string) list") (children: "element list")

text \<open>\<open>element.tag.split('}')[-1]\<close>: what follows the last closing brace.\<close>

definition tag_local :: "string \<Rightarrow> string" where
  "tag_local t = rev (takeWhile (\<lambda>c. c \<noteq> CHR ''}'') (rev t))"

text \<open>\<open>element.get(key)\<close> and \<open>element.get(key, default)\<close>.\<close>

definition elem_get :: "element \<Rightarrow> string \<Rightarrow> string option" where
  "elem_get e k = map_of (attrib e) k"

definition elem_get_default :: "element \<Rightarrow> string \<Rightarrow> string \<Rightarrow> string" where
  "elem_get_default e k d = (case map_of (attrib e) k of None \<Rightarrow> d | Some v \<Rightarrow> v)"

text \<open>The elements below an element, in document order, the element itself left out.\<close>

fun descendants :: "element \<Rightarrow> element list" where
  "descendants (Element t a cs) = concat (map (\<lambda>c. c # descendants c) cs)"

text \<open>The path step \<open>{*}name\<close> accepts an element whose tag is \<open>name\<close> in any namespace
  or in none. The path \<open>.//{*}n1/{*}n2/...\<close> selects the descendants named \<open>n1\<close>, then
  their children named \<open>n2\<close>, and so on; \<open>find\<close> returns the first element selected.\<close>

definition matches :: "string \<Rightarrow> element \<Rightarrow> bool" where
  "matches name e = (tag_local (tag e) = name)"

definition child_step :: "string \<Rightarrow> element list \<Rightarrow> element list" where
  "child_step name es = concat (map (\<lambda>e. filter (matches name) (children e)) es)"

definition findall_descendant_path :: "string list \<Rightarrow> element \<Rightarrow> element list" where
  "findall_descendant_path names e =
     (case names of
        [] \<Rightarrow> []
      | n # ns \<Rightarrow> fold child_step ns (filter (matches n) (descendants e)))"

definition find_descendant_path :: "string list \<Rightarrow> element \<Rightarrow> element option" where
  "find_descendant_path names e =
     (case findall_descendant_path names e of [] \<Rightarrow> None | x # _ \<Rightarrow> Some x)"

section \<open>Local bounds of an element\<close>

definition anchor_coords :: "float_parser \<Rightarrow> element \<Rightarrow> point option" where
  "anchor_coords pf path_point_type =
     (case elem_get path_point_type ''Anchor'' of
        None \<Rightarrow> None
      | Some anchor_str \<Rightarrow>
          if anchor_str = [] then None
          else (case those (map pf (py_split anchor_str)) of
                  Some [x, y] \<Rightarrow> Some (x, y)
                | _ \<Rightarrow> None))"

definition get_local_bounds_from_path_geometry :: "float_parser \<Rightarrow> element \<Rightarrow> bounds option" where
  "get_local_bounds_from_path_geometry pf tf_element =
     (let path_point_array =
            (case find_descendant_path
                    [''Properties'', ''PathGeometry'', ''GeometryPathType'', ''PathPointArray'']
                    tf_element of
               Some a \<Rightarrow> Some a
             | None \<Rightarrow>
                 find_descendant_path [''PathGeometry'', ''GeometryPathType'', ''PathPointArray'']
                   tf_element)
      in case path_point_array of
           None \<Rightarrow> None
         | Some arr \<Rightarrow>
             (case List.map_filter (anchor_coords pf)
                     (filter (matches ''PathPointType'') (children arr)) of
                [] \<Rightarrow> None
              | p # ps \<Rightarrow>
                  Some (min_list_real (snd p) (map snd ps), min_list_real (fst p) (map fst ps),
                        max_list_real (snd p) (map snd ps), max_list_real (fst p) (map fst ps))))"

text \<open>The four edges of a \<open>GraphicBounds\<close> property, each read with the default \<open>"0"\<close>,
  as \<open>(top, left, bottom, right)\<close>; \<open>None\<close> when \<open>float\<close> raises on one of them.\<close>

definition graphic_bounds :: "float_parser \<Rightarrow> element \<Rightarrow> bounds option" where
  "graphic_bounds pf gb_prop =
     (case those (map (\<lambda>s. pf (elem_get_default gb_prop s ''0''))
                   [''Left'', ''Top'', ''Right'', ''Bottom'']) of
        Some [gb_l, gb_t, gb_r, gb_b] \<Rightarrow> Some (gb_t, gb_l, gb_b, gb_r)
      | _ \<Rightarrow> None)"

text \<open>The local bounds that \<open>process_spread_element_recursively\<close> of
  \<open>extract_from_idml.py\<close> determines for an element (its lines 141 to 160).\<close>

definition determined_local_bounds :: "float_parser \<Rightarrow> element \<Rightarrow> bounds" where
  "determined_local_bounds pf element =
     (let element_tag_local = tag_local (tag element) in
      if element_tag_local = ''Image'' then
        (let b0 = (case find_descendant_path [''Properties'', ''GraphicBounds''] element of
                     None \<Rightarrow> zero_bounds
                   | Some gb_prop \<Rightarrow>
                       (case graphic_bounds pf gb_prop of
                          None \<Rightarrow> zero_bounds
                        | Some b \<Rightarrow> b))
         in if b0 = zero_bounds
            then (if truthy (elem_get element ''GeometricBounds'')
                  then parse_geometric_bounds pf (elem_get element ''GeometricBounds'')
                  else b0)
            else b0)
      else if element_tag_local = ''TextFrame'' then
        (case get_local_bounds_from_path_geometry pf element of
           Some path_gb \<Rightarrow> path_gb
         | None \<Rightarrow>
             if truthy (elem_get element ''GeometricBounds'')
             then parse_geometric_bounds pf (elem_get element ''GeometricBounds'')
             else zero_bounds)
      else parse_geometric_bounds pf (elem_get element ''GeometricBounds''))"

text \<open>The same step in \<open>extract_box.py\<close> (its lines 194 to 216). For an image the
  variable \<open>item_local_bounds\<close> is assigned only inside the \<open>try\<close> under
  \<open>if graphic_bounds_prop is not None\<close>; the next statement that reads it raises
  \<open>UnboundLocalError\<close> when it was never assigned.\<close>

datatype py_error = UnboundLocalError | KeyError

definition item_local_bounds_box :: "float_parser \<Rightarrow> element \<Rightarrow> py_error + bounds" where
  "item_local_bounds_box pf element =
     (if tag_local (tag element) = ''Image'' then
        (case find_descendant_path [''Properties'', ''GraphicBounds''] element of
           None \<Rightarrow> Inl UnboundLocalError
         | Some graphic_bounds_prop \<Rightarrow>
             (case graphic_bounds pf graphic_bounds_prop of
                None \<Rightarrow> Inl UnboundLocalError
              | Some b \<Rightarrow> Inr b))
      else Inr (parse_geometric_bounds pf (elem_get element ''GeometricBounds'')))"

section \<open>Global box and centre of an element\<close>

fun matrix_tx :: "matrix \<Rightarrow> real" where
  "matrix_tx (a, b, c, d, tx, ty) = tx"

fun matrix_ty :: "matrix \<Rightarrow> real" where
  "matrix_ty (a, b, c, d, tx, ty) = ty"

text \<open>Lines 162 to 167 of \<open>extract_from_idml.py\<close>: the box and the centre that the walk
  uses for an element with the given local bounds and global matrix.\<close>

definition item_aabb_and_center :: "bounds \<Rightarrow> matrix \<Rightarrow> aabb \<times> point" where
  "item_aabb_and_center local_bounds item_global_matrix =
     (if local_bounds \<noteq> zero_bounds
      then (let item_global_aabb =
                  get_axis_aligned_bounding_box (get_global_corners local_bounds item_global_matrix)
            in (item_global_aabb, get_item_center item_global_aabb))
      else (zero_aabb, (matrix_tx item_global_matrix, matrix_ty item_global_matrix)))"

text \<open>Lines 223 to 241 of \<open>extract_box.py\<close>: a \<open>Group\<close> always takes the first branch.\<close>

definition item_aabb_and_center_box :: "string \<Rightarrow> bounds \<Rightarrow> matrix \<Rightarrow> aabb \<times> point" where
  "item_aabb_and_center_box element_tag_local item_local_bounds item_global_matrix =
     (if item_local_bounds \<noteq> zero_bounds \<or> element_tag_local \<in> set [''Group'']
      then (let item_global_aabb =
                  get_axis_aligned_bounding_box
                    (get_global_corners item_local_bounds item_global_matrix)
            in (item_global_aabb, get_item_center item_global_aabb))
      else (zero_aabb, (matrix_tx item_global_matrix, matrix_ty item_global_matrix)))"

section \<open>Content records\<close>

text \<open>The dictionaries that the walk appends to a page: a text item, an image item, and
  the entry of a page in a page-content map. A page-content map and the story cache are
  dictionaries keyed by page id and by story id.\<close>

record text_item =
  t_story_id :: string
  t_text_frame_id :: string
  t_content :: string
  t_global_bounds :: aabb
  t_item_transform :: "string option"

record image_item =
  i_uri :: string
  i_image_element_id :: string
  i_container_element_tag :: string
  i_container_element_id :: string
  i_global_bounds :: aabb
  i_item_transform :: "string option"

record page_data =
  pd_name :: string
  pd_images :: "image_item list"
  pd_texts :: "text_item list"

type_synonym content_map = "(string, page_data) dict"
type_synonym cache = "(string, string) dict"

text \<open>The story files: \<open>stories sid\<close> is \<open>None\<close> when the file \<open>Story_sid.xml\<close> does not
  exist in the stories directory, and otherwise the text that \<open>get_story_text\<close> returns
  for it (the empty string when the file does not parse).\<close>

type_synonym story_files = "string \<Rightarrow> string option"

section \<open>The walk over a sheet\<close>

text \<open>Lines 176 to 179: a story id that is not in the cache is resolved and cached, as
  the empty string when its file is not found.\<close>

definition resolve_story :: "story_files \<Rightarrow> cache \<Rightarrow> string \<Rightarrow> cache" where
  "resolve_story stories story_cache story_id =
     (if story_id \<in> set (dict_keys story_cache) then story_cache
      else dict_set story_cache story_id
             (case stories story_id of Some text \<Rightarrow> text | None \<Rightarrow> []))"

text \<open>Lines 173 to 188, the branch of a \<open>TextFrame\<close>.\<close>

definition process_text_frame ::
  "story_files \<Rightarrow> element \<Rightarrow> string \<Rightarrow> string option \<Rightarrow> aabb \<Rightarrow> string option \<Rightarrow>
   content_map \<times> cache \<Rightarrow> content_map \<times> cache" where
  "process_text_frame stories element element_id item_local_matrix_str item_global_aabb
       assigned_page_id state =
     (case assigned_page_id of
        None \<Rightarrow> state
      | Some pid \<Rightarrow>
          (case elem_get element ''ParentStory'' of
             None \<Rightarrow> state
           | Some story_id \<Rightarrow>
               if pid \<noteq> [] \<and> story_id \<noteq> [] then
                 (let story_cache = resolve_story stories (snd state) story_id;
                      tc = (case dict_get story_cache story_id of None \<Rightarrow> [] | Some t \<Rightarrow> t)
                  in case dict_get (fst state) pid of
                       None \<Rightarrow> (fst state, story_cache)
                     | Some pd \<Rightarrow>
                         if \<not> list_ex (\<lambda>tf. t_text_frame_id tf = element_id) (pd_texts pd)
                            \<and> tc \<noteq> []
                         then (dict_set (fst state) pid
                                 (pd\<lparr>pd_texts := pd_texts pd @
                                    [\<lparr>t_story_id = story_id, t_text_frame_id = element_id,
                                      t_content = tc, t_global_bounds = item_global_aabb,
                                      t_item_transform = item_local_matrix_str\<rparr>]\<rparr>),
                               story_cache)
                         else (fst state, story_cache))
               else state))"

text \<open>Lines 190 to 199, the branch of an \<open>Image\<close>. An \<open>Element\<close> is true when it has
  children.\<close>

definition process_image ::
  "element \<Rightarrow> element \<Rightarrow> string \<Rightarrow> string option \<Rightarrow> aabb \<Rightarrow> string option \<Rightarrow>
   content_map \<Rightarrow> content_map" where
  "process_image element parent_element element_id item_local_matrix_str item_global_aabb
       assigned_page_id pages_content_map =
     (case assigned_page_id of
        None \<Rightarrow> pages_content_map
      | Some pid \<Rightarrow>
          if pid = [] then pages_content_map
          else (case find_descendant_path [''Link''] element of
                  None \<Rightarrow> pages_content_map
                | Some le \<Rightarrow>
                    (case elem_get le ''LinkResourceURI'' of
                       None \<Rightarrow> pages_content_map
                     | Some uri \<Rightarrow>
                         if uri = [] then pages_content_map
                         else (case dict_get pages_content_map pid of
                                 None \<Rightarrow> pages_content_map
                               | Some pd \<Rightarrow>
                                   (let ctag = (if children parent_element \<noteq> []
                                                then tag_local (tag parent_element) else ''Unk'');
                                        cid = (if children parent_element \<noteq> []
                                               then elem_get_default parent_element ''Self'' ''Unk''
                                               else ''Unk'')
                                    in if \<not> list_ex (\<lambda>i. i_uri i = uri \<and>
                                                         i_image_element_id i = element_id)
                                             (pd_images pd)
                                       then dict_set pages_content_map pid
                                              (pd\<lparr>pd_images := pd_images pd @
                                                 [\<lparr>i_uri = uri, i_image_element_id = element_id,
                                                   i_container_element_tag = ctag,
                                                   i_container_element_id = cid,
                                                   i_global_bounds = item_global_aabb,
                                                   i_item_transform = item_local_matrix_str\<rparr>]\<rparr>)
                                       else pages_content_map)))))"

text \<open>The global matrix of an element (line 138) and the page assigned to its centre
  (lines 162 to 170).\<close>

definition item_global_matrix_of :: "float_parser \<Rightarrow> matrix \<Rightarrow> element \<Rightarrow> matrix" where
  "item_global_matrix_of pf current_accumulated_matrix element =
     multiply_matrices current_accumulated_matrix
       (parse_transform_matrix pf (elem_get element ''ItemTransform''))"

definition item_geometry :: "float_parser \<Rightarrow> matrix \<Rightarrow> element \<Rightarrow> aabb \<times> point" where
  "item_geometry pf current_accumulated_matrix element =
     item_aabb_and_center (determined_local_bounds pf element)
       (item_global_matrix_of pf current_accumulated_matrix element)"

definition assigned_page ::
  "float_parser \<Rightarrow> page_info list \<Rightarrow> matrix \<Rightarrow> element \<Rightarrow> string option" where
  "assigned_page pf geometric_pages current_accumulated_matrix element =
     (let center = snd (item_geometry pf current_accumulated_matrix element)
      in find_page_for_item_center (fst center) (snd center) geometric_pages)"

text \<open>What \<open>process_spread_element_recursively\<close> does for the element itself, before it
  turns to the children (lines 131 to 199).\<close>

definition process_element ::
  "float_parser \<Rightarrow> story_files \<Rightarrow> page_info list \<Rightarrow> element \<Rightarrow> element \<Rightarrow> matrix \<Rightarrow>
   content_map \<times> cache \<Rightarrow> content_map \<times> cache" where
  "process_element pf stories geometric_pages element parent_element
       current_accumulated_matrix state =
     (let element_tag_local = tag_local (tag element);
          element_id = elem_get_default element ''Self'' ''UnknownID'';
          item_local_matrix_str = elem_get element ''ItemTransform'';
          item_global_aabb = fst (item_geometry pf current_accumulated_matrix element);
          assigned_page_id = assigned_page pf geometric_pages current_accumulated_matrix element
      in if element_tag_local = ''TextFrame'' then
           process_text_frame stories element element_id item_local_matrix_str item_global_aabb
             assigned_page_id state
         else if element_tag_local = ''Image'' then
           (process_image element parent_element element_id item_local_matrix_str
              item_global_aabb assigned_page_id (fst state), snd state)
         else state)"

text \<open>The walk: the element first, then, for a \<open>Group\<close>, \<open>Rectangle\<close>, \<open>Oval\<close> or
  \<open>Polygon\<close>, each child in order with the element's global matrix and \<open>depth + 1\<close>.
  The source uses \<open>depth\<close> for the indentation of its log lines.\<close>

fun process_spread_element_recursively ::
  "float_parser \<Rightarrow> story_files \<Rightarrow> page_info list \<Rightarrow> element \<Rightarrow> element \<Rightarrow> matrix \<Rightarrow> nat \<Rightarrow>
   content_map \<times> cache \<Rightarrow> content_map \<times> cache" where
  "process_spread_element_recursively pf stories geometric_pages (Element t a cs)
       parent_element current_accumulated_matrix depth state =
     (let state' = process_element pf stories geometric_pages (Element t a cs) parent_element
                     current_accumulated_matrix state
      in if tag_local t \<in> set [''Group'', ''Rectangle'', ''Oval'', ''Polygon'']
         then fold (\<lambda>child. process_spread_element_recursively pf stories geometric_pages child
                               (Element t a cs)
                               (item_global_matrix_of pf current_accumulated_matrix
                                  (Element t a cs))
                               (depth + 1))
                cs state'
         else state')"

section \<open>The pages and the content of a sheet\<close>

text \<open>Lines 216 to 237 of \<open>get_page_content_from_spread\<close>, from the sheet's \<open>Spread\<close>
  element on. A \<open>Page\<close> element without a \<open>Self\<close> id is skipped.\<close>

definition page_of_element :: "float_parser \<Rightarrow> matrix \<Rightarrow> element \<Rightarrow> page_info option" where
  "page_of_element pf spread_base_matrix page_el =
     (case elem_get page_el ''Self'' of
        None \<Rightarrow> None
      | Some pid \<Rightarrow>
          if pid = [] then None
          else Some (PageGeometricInfo pf pid
                       (elem_get_default page_el ''Name'' (''UnkPage_'' @ pid))
                       (elem_get page_el ''ItemTransform'') (elem_get page_el ''GeometricBounds'')
                       spread_base_matrix))"

definition geometric_pages_of_spread :: "float_parser \<Rightarrow> element \<Rightarrow> page_info list" where
  "geometric_pages_of_spread pf spread_element =
     List.map_filter
       (page_of_element pf (parse_transform_matrix pf (elem_get spread_element ''ItemTransform'')))
       (findall_descendant_path [''Page''] spread_element)"

text \<open>The same loop in \<open>extract_box.py\<close> (lines 386 to 402).\<close>

definition page_of_element_box :: "float_parser \<Rightarrow> element \<Rightarrow> page_info option" where
  "page_of_element_box pf page_el =
     (case elem_get page_el ''Self'' of
        None \<Rightarrow> None
      | Some pid \<Rightarrow>
          if pid = [] then None
          else Some (PageGeometricInfo_box pf pid
                       (elem_get_default page_el ''Name'' (''UnnamedPage_'' @ pid))
                       (elem_get page_el ''ItemTransform'') (elem_get page_el ''GeometricBounds'')))"

definition geometric_pages_of_spread_box :: "float_parser \<Rightarrow> element \<Rightarrow> page_info list" where
  "geometric_pages_of_spread_box pf spread_element =
     List.map_filter (page_of_element_box pf) (findall_descendant_path [''Page''] spread_element)"

definition initial_pages_content :: "page_info list \<Rightarrow> content_map" where
  "initial_pages_content geometric_pages =
     fold (\<lambda>page_info content.
             if page_id page_info \<in> set (dict_keys content) then content
             else dict_set content (page_id page_info)
                    \<lparr>pd_name = page_name page_info, pd_images = [], pd_texts = []\<rparr>)
       geometric_pages []"

definition get_page_content_from_spread ::
  "float_parser \<Rightarrow> story_files \<Rightarrow> element \<Rightarrow> cache \<Rightarrow>
   (content_map \<times> page_info list) option \<times> cache" where
  "get_page_content_from_spread pf stories spread_element story_cache =
     (let spread_base_matrix = parse_transform_matrix pf (elem_get spread_element ''ItemTransform'');
          geometric_pages = geometric_pages_of_spread pf spread_element
      in if geometric_pages = [] then (None, story_cache)
         else (let state =
                     fold (\<lambda>child_el. process_spread_element_recursively pf stories geometric_pages
                                         child_el spread_element spread_base_matrix 0)
                       (filter (\<lambda>child_el. tag_local (tag child_el) \<notin>
                                   set [''Page'', ''FlattenerPreference'', ''Properties''])
                          (children spread_element))
                       (initial_pages_content geometric_pages, story_cache)
               in (Some (fst state, geometric_pages), snd state)))"

section \<open>Merging the content of a sheet into the document\<close>

text \<open>Lines 283 to 292 of \<open>extract\<close>. The images of the sheet are checked one by one
  against the document's growing list; for the texts the source keeps the set
  \<open>current_tf_ids\<close> of the frame ids already in the document's list.\<close>

definition same_image :: "image_item \<Rightarrow> image_item \<Rightarrow> bool" where
  "same_image img_item ex_img =
     (i_uri ex_img = i_uri img_item \<and> i_image_element_id ex_img = i_image_element_id img_item)"

definition merge_images :: "image_item list \<Rightarrow> image_item list \<Rightarrow> image_item list" where
  "merge_images existing new =
     fold (\<lambda>img_item images.
             if \<not> list_ex (same_image img_item) images then images @ [img_item] else images)
       new existing"

definition merge_texts :: "text_item list \<Rightarrow> text_item list \<Rightarrow> text_item list" where
  "merge_texts existing new =
     fst (fold (\<lambda>text_item (texts, current_tf_ids).
                  if t_text_frame_id text_item \<notin> current_tf_ids
                  then (texts @ [text_item], insert (t_text_frame_id text_item) current_tf_ids)
                  else (texts, current_tf_ids))
            new (existing, set (map t_text_frame_id existing)))"

definition merge_page :: "page_data \<Rightarrow> page_data \<Rightarrow> page_data" where
  "merge_page existing pdata_in_spread =
     existing\<lparr>pd_images := merge_images (pd_images existing) (pd_images pdata_in_spread),
              pd_texts := merge_texts (pd_texts existing) (pd_texts pdata_in_spread)\<rparr>"

text \<open>One turn of the loop over the sheet's pages, and the loop.\<close>

definition merge_entry :: "string \<Rightarrow> page_data \<Rightarrow> content_map \<Rightarrow> content_map" where
  "merge_entry pid pdata_in_spread all_page_data_by_id =
     (case dict_get all_page_data_by_id pid of
        None \<Rightarrow> dict_set all_page_data_by_id pid pdata_in_spread
      | Some existing \<Rightarrow>
          dict_set all_page_data_by_id pid (merge_page existing pdata_in_spread))"

definition merge_spread_content :: "content_map \<Rightarrow> content_map \<Rightarrow> content_map" where
  "merge_spread_content all_page_data_by_id content_from_this_spread =
     fold (\<lambda>(pid, pdata_in_spread). merge_entry pid pdata_in_spread)
       content_from_this_spread all_page_data_by_id"

text \<open>The uniqueness key of a text item: the id of its text frame.\<close>

definition same_text_frame :: "text_item \<Rightarrow> text_item \<Rightarrow> bool" where
  "same_text_frame text_item ex_text = (t_text_frame_id ex_text = t_text_frame_id text_item)"

section \<open>The output: pages sorted by name, bounds relative to the page\<close>

text \<open>Lines 328 to 376 of \<open>extract\<close>. The variables \<open>page_width\<close> and \<open>page_height\<close> are
  locals of \<open>extract\<close>: they are unbound until a page with geometry assigns them, and a
  later page without geometry still sees the values of the page before. Reading them
  while unbound raises \<open>UnboundLocalError\<close>. The loop state \<open>page_size\<close> is \<open>None\<close> while the two
  are unbound.\<close>

record image_output =
  io_URI :: string
  io_ImageId :: string
  io_Bounds :: aabb
  io_page_width :: real
  io_page_height :: real

record text_output =
  to_Content :: string
  to_TextId :: string
  to_Bounds :: aabb
  to_page_width :: real
  to_page_height :: real

record page_output =
  po_page_name :: string
  po_page_id :: string
  po_images :: "image_output list"
  po_texts :: "text_output list"

definition relative_bounds :: "aabb \<Rightarrow> real \<Rightarrow> real \<Rightarrow> aabb" where
  "relative_bounds item_global_bounds page_offset_x page_offset_y =
     \<lparr>aabb_x1 = aabb_x1 item_global_bounds - page_offset_x,
      aabb_y1 = aabb_y1 item_global_bounds - page_offset_y,
      aabb_x2 = aabb_x2 item_global_bounds - page_offset_x,
      aabb_y2 = aabb_y2 item_global_bounds - page_offset_y\<rparr>"

definition image_to_output :: "real \<Rightarrow> real \<Rightarrow> real \<Rightarrow> real \<Rightarrow> image_item \<Rightarrow> image_output" where
  "image_to_output page_offset_x page_offset_y page_width page_height img_item =
     \<lparr>io_URI = i_uri img_item, io_ImageId = i_image_element_id img_item,
      io_Bounds = relative_bounds (i_global_bounds img_item) page_offset_x page_offset_y,
      io_page_width = page_width, io_page_height = page_height\<rparr>"

definition text_to_output :: "real \<Rightarrow> real \<Rightarrow> real \<Rightarrow> real \<Rightarrow> text_item \<Rightarrow> text_output" where
  "text_to_output page_offset_x page_offset_y page_width page_height t_item =
     \<lparr>to_Content = t_content t_item, to_TextId = t_text_frame_id t_item,
      to_Bounds = relative_bounds (t_global_bounds t_item) page_offset_x page_offset_y,
      to_page_width = page_width, to_page_height = page_height\<rparr>"

text \<open>The offsets of a page and the loop state after lines 335 to 344.\<close>

definition page_offsets ::
  "page_info option \<Rightarrow> (real \<times> real) option \<Rightarrow> (real \<times> real) \<times> (real \<times> real) option" where
  "page_offsets page_geo_info page_size =
     (case page_geo_info of
        None \<Rightarrow> ((0, 0), page_size)
      | Some info \<Rightarrow>
          (let page_global_bounds = page_global_aabb info
           in ((aabb_x1 page_global_bounds, aabb_y1 page_global_bounds),
               Some (aabb_x2 page_global_bounds - aabb_x1 page_global_bounds,
                     aabb_y2 page_global_bounds - aabb_y1 page_global_bounds))))"

definition normalize_page ::
  "(string, page_info) dict \<Rightarrow> content_map \<Rightarrow> string \<Rightarrow> (real \<times> real) option \<Rightarrow>
   py_error + (page_output \<times> (real \<times> real) option)" where
  "normalize_page all_page_geometries all_page_data_by_id pid page_size =
     (case dict_get all_page_data_by_id pid of
        None \<Rightarrow> Inl KeyError
      | Some pdata \<Rightarrow>
          (let offsets = page_offsets (dict_get all_page_geometries pid) page_size;
               page_offset_x = fst (fst offsets);
               page_offset_y = snd (fst offsets)
           in if pd_images pdata = [] \<and> pd_texts pdata = []
              then Inr (\<lparr>po_page_name = pd_name pdata, po_page_id = pid,
                          po_images = [], po_texts = []\<rparr>, snd offsets)
              else (case snd offsets of
                      None \<Rightarrow> Inl UnboundLocalError
                    | Some (page_width, page_height) \<Rightarrow>
                        Inr (\<lparr>po_page_name = pd_name pdata, po_page_id = pid,
                              po_images = map (image_to_output page_offset_x page_offset_y
                                                 page_width page_height) (pd_images pdata),
                              po_texts = map (text_to_output page_offset_x page_offset_y
                                                page_width page_height) (pd_texts pdata)\<rparr>,
                             snd offsets))))"

fun normalize_pages ::
  "(string, page_info) dict \<Rightarrow> content_map \<Rightarrow> string list \<Rightarrow> (real \<times> real) option \<Rightarrow>
   py_error + page_output list" where
  "normalize_pages all_page_geometries all_page_data_by_id [] page_size = Inr []"
| "normalize_pages all_page_geometries all_page_data_by_id (pid # pids) page_size =
     (case normalize_page all_page_geometries all_page_data_by_id pid page_size of
        Inl e \<Rightarrow> Inl e
      | Inr (page_out, page_size') \<Rightarrow>
          (case normalize_pages all_page_geometries all_page_data_by_id pids page_size' of
             Inl e \<Rightarrow> Inl e
           | Inr pages \<Rightarrow> Inr (page_out # pages)))"

text \<open>\<open>sorted(all_page_data_by_id.keys(), key=...)\<close>: the keys in insertion order, sorted
  by the page's name with a stable sort. Strings are compared character by character, a
  proper prefix before the longer string. A key of the dictionary is always found in it.\<close>

definition name_of_page :: "content_map \<Rightarrow> string \<Rightarrow> string" where
  "name_of_page all_page_data_by_id pid_key =
     (case dict_get all_page_data_by_id pid_key of Some pdata \<Rightarrow> pd_name pdata | None \<Rightarrow> [])"

definition final_sorted_page_ids :: "content_map \<Rightarrow> string list" where
  "final_sorted_page_ids all_page_data_by_id =
     sort_key (name_of_page all_page_data_by_id) (dict_keys all_page_data_by_id)"

definition output_pages :: "(string, page_info) dict \<Rightarrow> content_map \<Rightarrow> py_error + page_output list" where
  "output_pages all_page_geometries all_page_data_by_id =
     normalize_pages all_page_geometries all_page_data_by_id
       (final_sorted_page_ids all_page_data_by_id) None"

text \<open>Closed-interval containment of a point in a page's global box, written out: the
  reading of ``contains'' that the properties below are stated with.\<close>

definition box_contains :: "real \<Rightarrow> real \<Rightarrow> page_info \<Rightarrow> bool" where
  "box_contains px py p =
     (aabb_x1 (page_global_aabb p) \<le> px \<and> px \<le> aabb_x2 (page_global_aabb p) \<and>
      aabb_y1 (page_global_aabb p) \<le> py \<and> py \<le> aabb_y2 (page_global_aabb p))"

section \<open>Example inputs\<close>

text \<open>The values of \<open>float\<close> on the numerals that the examples use.\<close>

definition example_float :: float_parser where
  "example_float =
     map_of [(''0'', 0), (''1'', 1), (''10'', 10), (''50'', 50), (''100'', 100), (''200'', 200),
             (''600'', 600), (''800'', 800), (''1000'', 1000)]"

text \<open>A page with the given id and global box.\<close>

definition example_page :: "string \<Rightarrow> real \<Rightarrow> real \<Rightarrow> real \<Rightarrow> real \<Rightarrow> page_info" where
  "example_page pid x1 y1 x2 y2 =
     \<lparr>page_id = pid, page_name = pid, page_local_bounds = (y1, x1, y2, x2),
      page_global_matrix = identity_matrix,
      page_global_aabb = \<lparr>aabb_x1 = x1, aabb_y1 = y1, aabb_x2 = x2, aabb_y2 = y2\<rparr>\<rparr>"

text \<open>A sheet that is moved down by 1000 and holds one page of 600 by 800.\<close>

definition example_spread :: element where
  "example_spread =
     Element ''Spread'' [(''Self'', ''s1''), (''ItemTransform'', ''1 0 0 1 0 1000'')]
       [Element ''Page'' [(''Self'', ''p1''), (''Name'', ''1''),
                          (''GeometricBounds'', ''0 0 800 600''),
                          (''ItemTransform'', ''1 0 0 1 0 0'')] []]"

text \<open>An image with no \<open>GraphicBounds\<close> property and no \<open>GeometricBounds\<close> attribute, a text
  frame without bounds, and a rectangle with bounds.\<close>

definition example_bare_image :: element where
  "example_bare_image = Element ''Image'' [(''Self'', ''i1'')] []"

definition example_empty_frame :: element where
  "example_empty_frame =
     Element ''TextFrame'' [(''Self'', ''tf0''), (''ItemTransform'', ''1 0 0 1 100 50'')] []"

definition example_rectangle :: element where
  "example_rectangle =
     Element ''Rectangle'' [(''Self'', ''r1''), (''GeometricBounds'', ''0 0 50 100'')] []"

text \<open>Content of a document and of a sheet that share the page \<open>p1\<close> and one image of it.\<close>

definition example_image :: "string \<Rightarrow> string \<Rightarrow> image_item" where
  "example_image u i =
     \<lparr>i_uri = u, i_image_element_id = i, i_container_element_tag = ''Rectangle'',
      i_container_element_id = ''r1'', i_global_bounds = zero_aabb, i_item_transform = None\<rparr>"

definition example_text :: "string \<Rightarrow> string \<Rightarrow> text_item" where
  "example_text sid fid =
     \<lparr>t_story_id = sid, t_text_frame_id = fid, t_content = ''Hello'',
      t_global_bounds = zero_aabb, t_item_transform = None\<rparr>"

definition example_document :: content_map where
  "example_document =
     [(''p1'', \<lparr>pd_name = ''1'', pd_images = [example_image ''a.png'' ''i1''],
               pd_texts = [example_text ''s1'' ''tf1'']\<rparr>)]"

definition example_sheet_content :: content_map where
  "example_sheet_content =
     [(''p1'', \<lparr>pd_name = ''one'',
               pd_images = [example_image ''a.png'' ''i1'', example_image ''b.png'' ''i2''],
               pd_texts = [example_text ''s1'' ''tf1'']\<rparr>),
      (''p2'', \<lparr>pd_name = ''2'', pd_images = [], pd_texts = [example_text ''s2'' ''tf2'']\<rparr>)]"

text \<open>A document of three pages, entered in the order \<open>pb\<close>, \<open>pa\<close>, \<open>pc\<close>, two of them with
  the same name, and the geometry of its pages.\<close>

definition example_named_pages :: content_map where
  "example_named_pages =
     [(''pb'', \<lparr>pd_name = ''2'', pd_images = [], pd_texts = [example_text ''s1'' ''tf1'']\<rparr>),
      (''pa'', \<lparr>pd_name = ''10'', pd_images = [], pd_texts = []\<rparr>),
      (''pc'', \<lparr>pd_name = ''2'', pd_images = [], pd_texts = []\<rparr>)]"

definition example_geometries :: "(string, page_info) dict" where
  "example_geometries =
     [(''pa'', example_page ''pa'' 0 0 600 800), (''pb'', example_page ''pb'' 600 0 1200 800),
      (''pc'', example_page ''pc'' 0 1000 600 1800)]"

text \<open>The text that the walk resolves for a story id: the cached text when the id is in
  the cache, else the text of the story file, else the empty string.\<close>

definition resolved_text :: "story_files \<Rightarrow> cache \<Rightarrow> string \<Rightarrow> string" where
  "resolved_text stories story_cache story_id =
     (case dict_get story_cache story_id of
        Some t \<Rightarrow> t
      | None \<Rightarrow> (case stories story_id of Some t \<Rightarrow> t | None \<Rightarrow> []))"

text \<open>A sheet with one page and two text frames that have the same id and different
  stories, and the story files.\<close>

definition example_frame :: "string \<Rightarrow> string \<Rightarrow> element" where
  "example_frame fid sid =
     Element ''TextFrame''
       [(''Self'', fid), (''ParentStory'', sid), (''GeometricBounds'', ''10 10 100 200'')] []"

definition example_two_frames :: element where
  "example_two_frames =
     Element ''Spread'' [(''Self'', ''s1'')]
       [Element ''Page'' [(''Self'', ''p1''), (''Name'', ''1''),
                          (''GeometricBounds'', ''0 0 800 600'')] [],
        example_frame ''tf1'' ''s1'', example_frame ''tf1'' ''s2'']"

definition example_stories :: story_files where
  "example_stories = map_of [(''s1'', ''Hello''), (''s2'', ''World'')]"

text \<open>The page of that sheet, and the item of its first text frame.\<close>

definition example_page_p1 :: page_info where
  "example_page_p1 =
     \<lparr>page_id = ''p1'', page_name = ''1'', page_local_bounds = (0, 0, 800, 600),
      page_global_matrix = (1, 0, 0, 1, 0, 0),
      page_global_aabb = \<lparr>aabb_x1 = 0, aabb_y1 = 0, aabb_x2 = 600, aabb_y2 = 800\<rparr>\<rparr>"

definition example_first_item :: text_item where
  "example_first_item =
     \<lparr>t_story_id = ''s1'', t_text_frame_id = ''tf1'', t_content = ''Hello'',
      t_global_bounds = \<lparr>aabb_x1 = 10, aabb_y1 = 10, aabb_x2 = 200, aabb_y2 = 100\<rparr>,
      t_item_transform = None\<rparr>"


section \<open>Properties of transforms\<close>


section \<open>Properties of page containment\<close>

lemma find_page_None:
  "(find_page_for_item_center px py pages = None) = (\<not> list_ex (box_contains px py) pages)"
  by (induction pages) (auto simp: is_point_in_rect_def box_contains_def)

lemma find_page_first:
  "i < length pages \<Longrightarrow> box_contains px py (pages ! i) \<Longrightarrow>
   (\<forall>j<i. \<not> box_contains px py (pages ! j)) \<Longrightarrow>
   find_page_for_item_center px py pages = Some (page_id (pages ! i))"
proof (induction pages arbitrary: i)
  case Nil
  then show ?case by simp
next
  case (Cons p ps)
  show ?case
  proof (cases i)
    case 0
    with Cons.prems show ?thesis by (simp add: is_point_in_rect_def box_contains_def)
  next
    case (Suc k)
    with Cons.prems have np: "\<not> box_contains px py p" by auto
    from Suc Cons.prems have "find_page_for_item_center px py ps = Some (page_id (ps ! k))"
      by (intro Cons.IH) auto
    with np Suc show ?thesis by (auto simp: is_point_in_rect_def box_contains_def)
  qed
qed

text \<open>
  Claim C2. \<open>find_page_for_item_center\<close> returns the id of the first page, in the order
  of the list, whose global box contains the point, bounds included on both axes; it
  returns \<open>None\<close> exactly when no page's box contains the point. When several boxes
  contain the point, the earliest page of the list is the one returned.
\<close>

theorem find_page_for_item_center_first_match:
  "(find_page_for_item_center px py pages = None
      \<longleftrightarrow> \<not> list_ex (box_contains px py) pages) \<and>
   (\<forall>i. i < length pages \<and> box_contains px py (pages ! i) \<and>
        (\<forall>j<i. \<not> box_contains px py (pages ! j))
      \<longrightarrow> find_page_for_item_center px py pages = Some (page_id (pages ! i)))"
  using find_page_None find_page_first by blast

text \<open>Two pages that share the edge \<open>x = 10\<close>: a point on that edge belongs to both
  boxes and goes to the first page.\<close>

theorem find_page_for_item_center_first_match_witness:
  "box_contains 10 5 (example_page ''p1'' 0 0 10 10) \<and>
   box_contains 10 5 (example_page ''p2'' 10 0 20 10) \<and>
   find_page_for_item_center 10 5
     [example_page ''p1'' 0 0 10 10, example_page ''p2'' 10 0 20 10] = Some ''p1'' \<and>
   find_page_for_item_center 25 5
     [example_page ''p1'' 0 0 10 10, example_page ''p2'' 10 0 20 10] = None"
proof -
  let ?ps = "[example_page ''p1'' 0 0 10 10, example_page ''p2'' 10 0 20 10]"
  have a: "box_contains 10 5 (example_page ''p1'' 0 0 10 10)"
    and b: "box_contains 10 5 (example_page ''p2'' 10 0 20 10)"
    by (simp_all add: box_contains_def example_page_def)
  have n: "\<not> list_ex (box_contains 25 5) ?ps"
    by (simp add: box_contains_def example_page_def)
  have "find_page_for_item_center 10 5 ?ps = Some (page_id (?ps ! 0))"
    using find_page_for_item_center_first_match [of 10 5 ?ps, THEN conjunct2, THEN spec, of 0] a
    by simp
  moreover have "find_page_for_item_center 25 5 ?ps = None"
    using find_page_for_item_center_first_match [of 25 5 ?ps, THEN conjunct1] n by simp
  ultimately show ?thesis using a b by (simp add: example_page_def)
qed

section \<open>Properties of the page index\<close>

lemma split_ex1: "py_split ''1 0 0 1 0 1000'' = [''1'', ''0'', ''0'', ''1'', ''0'', ''1000'']"
  by (simp add: py_split_def is_space_def)

lemma split_ex2: "py_split ''0 0 800 600'' = [''0'', ''0'', ''800'', ''600'']"
  by (simp add: py_split_def is_space_def)

lemma split_ex3: "py_split ''1 0 0 1 0 0'' = [''1'', ''0'', ''0'', ''1'', ''0'', ''0'']"
  by (simp add: py_split_def is_space_def)

text \<open>In \<open>extract_from_idml.py\<close> the global box of a page is the box of its local bounds
  under the product of the sheet's transform and the page's own transform, for every
  page that \<open>get_page_content_from_spread\<close> builds.\<close>

lemma page_aabb_composes_sheet_and_page:
  "page_global_aabb (PageGeometricInfo pf pid name t_str b_str spread_base) =
     get_axis_aligned_bounding_box
       (get_global_corners (parse_geometric_bounds pf b_str)
          (multiply_matrices spread_base (parse_transform_matrix pf t_str)))"
  by (simp add: PageGeometricInfo_def Let_def)

lemma pages_of_spread_compose:
  assumes "p \<in> set (geometric_pages_of_spread pf spread_element)"
  shows "\<exists>page_el \<in> set (findall_descendant_path [''Page''] spread_element).
           page_global_aabb p =
             get_axis_aligned_bounding_box
               (get_global_corners (parse_geometric_bounds pf (elem_get page_el ''GeometricBounds''))
                  (multiply_matrices
                     (parse_transform_matrix pf (elem_get spread_element ''ItemTransform''))
                     (parse_transform_matrix pf (elem_get page_el ''ItemTransform''))))"
  using assms
  by (auto simp: geometric_pages_of_spread_def List.map_filter_def page_of_element_def
        page_aabb_composes_sheet_and_page split: option.splits if_splits)

text \<open>
  Claim C1. The global box of a page is the box of its local bounds under the product of
  the sheet's base transform and the page's own transform. The page index of
  \<open>extract_box.py\<close> leaves the sheet's transform out: on the example sheet, which is moved
  down by 1000, it puts the page at \<open>y\<close> from 0 to 800, where the product of the two
  transforms, which \<open>extract_from_idml.py\<close> uses, puts it at \<open>y\<close> from 1000 to 1800.
\<close>

theorem box_page_aabb_ignores_sheet_transform:
  "map page_global_aabb (geometric_pages_of_spread_box example_float example_spread) =
     [\<lparr>aabb_x1 = 0, aabb_y1 = 0, aabb_x2 = 600, aabb_y2 = 800\<rparr>] \<and>
   map page_global_aabb (geometric_pages_of_spread example_float example_spread) =
     [\<lparr>aabb_x1 = 0, aabb_y1 = 1000, aabb_x2 = 600, aabb_y2 = 1800\<rparr>]"
  by (simp add: geometric_pages_of_spread_box_def geometric_pages_of_spread_def
        findall_descendant_path_def matches_def tag_local_def
        List.map_filter_def page_of_element_box_def page_of_element_def example_spread_def
        elem_get_def elem_get_default_def PageGeometricInfo_box_def PageGeometricInfo_def
        parse_transform_matrix_def parse_geometric_bounds_def split_ex1 split_ex2 split_ex3
        example_float_def get_axis_aligned_bounding_box_def)

section \<open>Properties of the local bounds and of the centre\<close>

lemma parse_bounds_falsy:
  "\<not> truthy s \<Longrightarrow> parse_geometric_bounds pf s = zero_bounds"
  by (cases s) (auto simp: parse_geometric_bounds_def)

lemma graphic_bounds_edges:
  assumes "pf (elem_get_default gb ''Left'' ''0'') = Some l"
    and "pf (elem_get_default gb ''Top'' ''0'') = Some t"
    and "pf (elem_get_default gb ''Right'' ''0'') = Some r"
    and "pf (elem_get_default gb ''Bottom'' ''0'') = Some b"
  shows "graphic_bounds pf gb = Some (t, l, b, r)"
  using assms by (simp add: graphic_bounds_def)

text \<open>In \<open>extract_from_idml.py\<close> the bounds of an image are its \<open>GraphicBounds\<close>
  property as \<open>(top, left, bottom, right)\<close> when that is present, parses and is not all
  zero, and otherwise what \<open>parse_geometric_bounds\<close> makes of the element's own
  \<open>GeometricBounds\<close> attribute, which is all zero for an absent attribute. No matrix is
  an argument of \<open>determined_local_bounds\<close>.\<close>

lemma image_bounds_resolution:
  assumes "tag_local (tag e) = ''Image''"
  shows "determined_local_bounds pf e =
     (case find_descendant_path [''Properties'', ''GraphicBounds''] e of
        None \<Rightarrow> parse_geometric_bounds pf (elem_get e ''GeometricBounds'')
      | Some gb \<Rightarrow>
          (case graphic_bounds pf gb of
             None \<Rightarrow> parse_geometric_bounds pf (elem_get e ''GeometricBounds'')
           | Some b \<Rightarrow>
               if b = zero_bounds then parse_geometric_bounds pf (elem_get e ''GeometricBounds'')
               else b))"
  using assms
  by (auto simp: determined_local_bounds_def Let_def parse_bounds_falsy
      split: option.splits)

lemma image_bounds_both_absent:
  assumes "tag_local (tag e) = ''Image''"
    and "find_descendant_path [''Properties'', ''GraphicBounds''] e = None"
    and "elem_get e ''GeometricBounds'' = None"
  shows "determined_local_bounds pf e = zero_bounds"
  using assms by (simp add: image_bounds_resolution parse_geometric_bounds_def)

text \<open>
  Claim C5. The local bounds of an image are its \<open>GraphicBounds\<close> property, else its
  \<open>GeometricBounds\<close> attribute, else all zero. In \<open>extract_box.py\<close> an image without
  a \<open>GraphicBounds\<close> property leaves \<open>item_local_bounds\<close> unassigned, and the walk
  raises where \<open>extract_from_idml.py\<close> yields the all-zero bounds.
\<close>

theorem box_image_without_graphic_bounds_raises:
  "item_local_bounds_box example_float example_bare_image = Inl UnboundLocalError \<and>
   determined_local_bounds example_float example_bare_image = zero_bounds"
  by (simp add: item_local_bounds_box_def determined_local_bounds_def example_bare_image_def
      tag_local_def find_descendant_path_def findall_descendant_path_def elem_get_def
      child_step_def Let_def)

text \<open>
  Claim C8. An element whose local bounds are all zero is reported with the all-zero box,
  and the translation \<open>(tx, ty)\<close> of its global matrix is the point that page assignment
  uses; an element with other bounds is reported with the box of its transformed corners
  and assigned by the midpoint of that box. This holds for the walk of
  \<open>extract_from_idml.py\<close> and, for every tag but \<open>Group\<close>, for the step of
  \<open>extract_box.py\<close>.
\<close>

theorem zero_bounds_sentinel_and_center:
  "(determined_local_bounds pf e = zero_bounds \<longrightarrow>
      item_geometry pf acc e =
        (zero_aabb, (matrix_tx (item_global_matrix_of pf acc e),
                     matrix_ty (item_global_matrix_of pf acc e))) \<and>
      assigned_page pf pages acc e =
        find_page_for_item_center (matrix_tx (item_global_matrix_of pf acc e))
          (matrix_ty (item_global_matrix_of pf acc e)) pages) \<and>
   (determined_local_bounds pf e \<noteq> zero_bounds \<longrightarrow>
      fst (item_geometry pf acc e) =
        get_axis_aligned_bounding_box
          (get_global_corners (determined_local_bounds pf e) (item_global_matrix_of pf acc e)) \<and>
      snd (item_geometry pf acc e) =
        ((aabb_x1 (fst (item_geometry pf acc e)) + aabb_x2 (fst (item_geometry pf acc e))) / 2,
         (aabb_y1 (fst (item_geometry pf acc e)) + aabb_y2 (fst (item_geometry pf acc e))) / 2) \<and>
      assigned_page pf pages acc e =
        find_page_for_item_center
          ((aabb_x1 (fst (item_geometry pf acc e)) + aabb_x2 (fst (item_geometry pf acc e))) / 2)
          ((aabb_y1 (fst (item_geometry pf acc e)) + aabb_y2 (fst (item_geometry pf acc e))) / 2)
          pages) \<and>
   (lb = zero_bounds \<and> tg \<noteq> ''Group'' \<longrightarrow>
      item_aabb_and_center_box tg lb m = (zero_aabb, (matrix_tx m, matrix_ty m))) \<and>
   (lb \<noteq> zero_bounds \<longrightarrow>
      fst (item_aabb_and_center_box tg lb m) =
        get_axis_aligned_bounding_box (get_global_corners lb m) \<and>
      snd (item_aabb_and_center_box tg lb m) =
        ((aabb_x1 (fst (item_aabb_and_center_box tg lb m)) +
          aabb_x2 (fst (item_aabb_and_center_box tg lb m))) / 2,
         (aabb_y1 (fst (item_aabb_and_center_box tg lb m)) +
          aabb_y2 (fst (item_aabb_and_center_box tg lb m))) / 2))"
  by (simp add: item_geometry_def assigned_page_def item_aabb_and_center_def
      item_aabb_and_center_box_def Let_def get_item_center_def)

lemma split_ex4: "py_split ''1 0 0 1 100 50'' = [''1'', ''0'', ''0'', ''1'', ''100'', ''50'']"
  by (simp add: py_split_def is_space_def)

lemma split_ex5: "py_split ''0 0 50 100'' = [''0'', ''0'', ''50'', ''100'']"
  by (simp add: py_split_def is_space_def)

lemma ex_frame_bounds: "determined_local_bounds example_float example_empty_frame = zero_bounds"
  by (simp add: determined_local_bounds_def example_empty_frame_def tag_local_def
      get_local_bounds_from_path_geometry_def find_descendant_path_def
      findall_descendant_path_def elem_get_def child_step_def Let_def)

lemma ex_frame_matrix:
  "item_global_matrix_of example_float identity_matrix example_empty_frame = (1, 0, 0, 1, 100, 50)"
  by (simp add: item_global_matrix_of_def example_empty_frame_def elem_get_def
      parse_transform_matrix_def split_ex4 example_float_def identity_matrix_def)

lemma ex_rect_bounds: "determined_local_bounds example_float example_rectangle = (0, 0, 50, 100)"
  by (simp add: determined_local_bounds_def example_rectangle_def tag_local_def elem_get_def
      parse_geometric_bounds_def split_ex5 example_float_def Let_def)

lemma ex_rect_matrix:
  "item_global_matrix_of example_float identity_matrix example_rectangle = (1, 0, 0, 1, 0, 0)"
  by (simp add: item_global_matrix_of_def example_rectangle_def elem_get_def
      parse_transform_matrix_def identity_matrix_def)

theorem zero_bounds_sentinel_and_center_witness:
  "determined_local_bounds example_float example_empty_frame = zero_bounds \<and>
   item_geometry example_float identity_matrix example_empty_frame = (zero_aabb, (100, 50)) \<and>
   assigned_page example_float [example_page ''p1'' 0 0 600 800] identity_matrix
     example_empty_frame = Some ''p1'' \<and>
   determined_local_bounds example_float example_rectangle \<noteq> zero_bounds \<and>
   item_geometry example_float identity_matrix example_rectangle =
     (\<lparr>aabb_x1 = 0, aabb_y1 = 0, aabb_x2 = 100, aabb_y2 = 50\<rparr>, (50, 25)) \<and>
   item_aabb_and_center_box ''TextFrame'' zero_bounds (1, 0, 0, 1, 100, 50) =
     (zero_aabb, (100, 50))"
proof -
  note t = zero_bounds_sentinel_and_center
    [of example_float example_empty_frame identity_matrix "[example_page ''p1'' 0 0 600 800]"
        zero_bounds "''TextFrame''" "(1, 0, 0, 1, 100, 50)"]
  note r = zero_bounds_sentinel_and_center
    [of example_float example_rectangle identity_matrix "[]"
        zero_bounds "''TextFrame''" "(1, 0, 0, 1, 100, 50)"]
  have nz: "determined_local_bounds example_float example_rectangle \<noteq> zero_bounds"
    by (simp add: ex_rect_bounds zero_bounds_def)
  have g: "item_geometry example_float identity_matrix example_empty_frame = (zero_aabb, (100, 50))"
    using t ex_frame_bounds by (simp add: ex_frame_matrix)
  have a: "assigned_page example_float [example_page ''p1'' 0 0 600 800] identity_matrix
             example_empty_frame = Some ''p1''"
    using t ex_frame_bounds
    by (simp add: ex_frame_matrix example_page_def is_point_in_rect_def)
  have b: "item_aabb_and_center_box ''TextFrame'' zero_bounds (1, 0, 0, 1, 100, 50) =
             (zero_aabb, (100, 50))"
    using t by simp
  have f: "fst (item_geometry example_float identity_matrix example_rectangle) =
             \<lparr>aabb_x1 = 0, aabb_y1 = 0, aabb_x2 = 100, aabb_y2 = 50\<rparr>"
    using r nz by (simp add: ex_rect_bounds ex_rect_matrix get_axis_aligned_bounding_box_def)
  have s: "snd (item_geometry example_float identity_matrix example_rectangle) = (50, 25)"
    using r nz by (simp add: f)
  from f s have "item_geometry example_float identity_matrix example_rectangle =
     (\<lparr>aabb_x1 = 0, aabb_y1 = 0, aabb_x2 = 100, aabb_y2 = 50\<rparr>, (50, 25))"
    by (simp add: prod_eq_iff)
  with g a b nz ex_frame_bounds show ?thesis by simp
qed

section \<open>Properties of the merge\<close>

lemma dict_get_set_same: "dict_get (dict_set d k v) k = Some v"
  by (induction d) (auto simp: dict_get_def)

lemma dict_get_set_other: "k' \<noteq> k \<Longrightarrow> dict_get (dict_set d k v) k' = dict_get d k'"
  by (induction d) (auto simp: dict_get_def)

lemma dict_set_same_value: "dict_get d k = Some v \<Longrightarrow> dict_set d k v = d"
  by (induction d) (auto simp: dict_get_def split: if_splits)

lemma dict_get_Cons: "dict_get ((p, d) # c) k = (if k = p then Some d else dict_get c k)"
  by (simp add: dict_get_def)

lemma dict_get_None_keys: "(dict_get d k = None) = (k \<notin> set (dict_keys d))"
  by (simp add: dict_get_def dict_keys_def map_of_eq_None_iff)

subsection \<open>Images\<close>

lemma merge_images_Nil: "merge_images ex [] = ex"
  by (simp add: merge_images_def)

lemma merge_images_Cons:
  "merge_images ex (x # xs) =
     merge_images (if \<not> list_ex (same_image x) ex then ex @ [x] else ex) xs"
  by (simp add: merge_images_def)

lemma merge_images_appends:
  "\<exists>added. merge_images ex new = ex @ added \<and> set added \<subseteq> set new \<and>
           (\<forall>a\<in>set added. \<not> list_ex (same_image a) ex)"
proof (induction new arbitrary: ex)
  case Nil
  show ?case by (simp add: merge_images_Nil)
next
  case (Cons x xs)
  show ?case
  proof (cases "list_ex (same_image x) ex")
    case True
    from Cons.IH [of ex] obtain added where
      "merge_images ex xs = ex @ added" "set added \<subseteq> set xs"
      "\<forall>a\<in>set added. \<not> list_ex (same_image a) ex" by blast
    with True show ?thesis by (auto simp: merge_images_Cons)
  next
    case False
    from Cons.IH [of "ex @ [x]"] obtain added where a:
      "merge_images (ex @ [x]) xs = (ex @ [x]) @ added" "set added \<subseteq> set xs"
      "\<forall>a\<in>set added. \<not> list_ex (same_image a) (ex @ [x])" by blast
    have "merge_images ex (x # xs) = ex @ (x # added)"
      using False a(1) by (simp add: merge_images_Cons)
    moreover have "set (x # added) \<subseteq> set (x # xs)" using a(2) by auto
    moreover have "\<forall>b\<in>set (x # added). \<not> list_ex (same_image b) ex"
      using False a(3) by (auto simp: list_ex_iff)
    ultimately show ?thesis by blast
  qed
qed

lemma merge_images_keeps_keys:
  "list_ex (same_image n) ex \<Longrightarrow> list_ex (same_image n) (merge_images ex new)"
  using merge_images_appends [of ex new] by (auto simp: list_ex_iff)

lemma same_image_refl: "same_image x x"
  by (simp add: same_image_def)

lemma merge_images_covers:
  "list_all (\<lambda>n. list_ex (same_image n) (merge_images ex new)) new"
proof (induction new arbitrary: ex)
  case Nil
  show ?case by simp
next
  case (Cons x xs)
  let ?ex' = "if \<not> list_ex (same_image x) ex then ex @ [x] else ex"
  have "list_ex (same_image x) ?ex'" by (auto simp: list_ex_iff same_image_refl)
  then have "list_ex (same_image x) (merge_images ?ex' xs)" by (rule merge_images_keeps_keys)
  with Cons.IH [of ?ex'] show ?case by (simp add: merge_images_Cons)
qed

lemma merge_images_absorbed:
  "list_all (\<lambda>n. list_ex (same_image n) ex) new \<Longrightarrow> merge_images ex new = ex"
  by (induction new) (simp_all add: merge_images_Nil merge_images_Cons)

subsection \<open>Texts\<close>

lemma merge_texts_fold:
  "fold (\<lambda>text_item (texts, current_tf_ids).
           if t_text_frame_id text_item \<notin> current_tf_ids
           then (texts @ [text_item], insert (t_text_frame_id text_item) current_tf_ids)
           else (texts, current_tf_ids))
     new (ex, set (map t_text_frame_id ex)) =
   (let r = fold (\<lambda>text_item texts.
                    if \<not> list_ex (same_text_frame text_item) texts then texts @ [text_item]
                    else texts) new ex
    in (r, set (map t_text_frame_id r)))"
proof (induction new arbitrary: ex)
  case Nil
  show ?case by simp
next
  case (Cons x xs)
  have m: "(t_text_frame_id x \<notin> set (map t_text_frame_id ex)) =
           (\<not> list_ex (same_text_frame x) ex)"
    by (auto simp: list_ex_iff same_text_frame_def intro: rev_image_eqI)
  show ?case
  proof (cases "list_ex (same_text_frame x) ex")
    case True
    with m Cons.IH [of ex] show ?thesis by simp
  next
    case False
    with m Cons.IH [of "ex @ [x]"] show ?thesis by simp
  qed
qed

lemma merge_texts_Nil: "merge_texts ex [] = ex"
  by (simp add: merge_texts_def)

lemma merge_texts_Cons:
  "merge_texts ex (x # xs) =
     merge_texts (if \<not> list_ex (same_text_frame x) ex then ex @ [x] else ex) xs"
proof -
  have e: "\<And>l n. merge_texts l n =
             fold (\<lambda>text_item texts.
                     if \<not> list_ex (same_text_frame text_item) texts then texts @ [text_item]
                     else texts) n l"
    unfolding merge_texts_def merge_texts_fold by (simp add: Let_def)
  show ?thesis unfolding e by simp
qed

lemma merge_texts_appends:
  "\<exists>added. merge_texts ex new = ex @ added \<and> set added \<subseteq> set new \<and>
           (\<forall>a\<in>set added. \<not> list_ex (same_text_frame a) ex)"
proof (induction new arbitrary: ex)
  case Nil
  show ?case by (simp add: merge_texts_Nil)
next
  case (Cons x xs)
  show ?case
  proof (cases "list_ex (same_text_frame x) ex")
    case True
    from Cons.IH [of ex] obtain added where
      "merge_texts ex xs = ex @ added" "set added \<subseteq> set xs"
      "\<forall>a\<in>set added. \<not> list_ex (same_text_frame a) ex" by blast
    with True show ?thesis by (auto simp: merge_texts_Cons)
  next
    case False
    from Cons.IH [of "ex @ [x]"] obtain added where a:
      "merge_texts (ex @ [x]) xs = (ex @ [x]) @ added" "set added \<subseteq> set xs"
      "\<forall>a\<in>set added. \<not> list_ex (same_text_frame a) (ex @ [x])" by blast
    have "merge_texts ex (x # xs) = ex @ (x # added)"
      using False a(1) by (simp add: merge_texts_Cons)
    moreover have "set (x # added) \<subseteq> set (x # xs)" using a(2) by auto
    moreover have "\<forall>b\<in>set (x # added). \<not> list_ex (same_text_frame b) ex"
      using False a(3) by (auto simp: list_ex_iff)
    ultimately show ?thesis by blast
  qed
qed

lemma merge_texts_keeps_keys:
  "list_ex (same_text_frame n) ex \<Longrightarrow> list_ex (same_text_frame n) (merge_texts ex new)"
  using merge_texts_appends [of ex new] by (auto simp: list_ex_iff)

lemma merge_texts_covers:
  "list_all (\<lambda>n. list_ex (same_text_frame n) (merge_texts ex new)) new"
proof (induction new arbitrary: ex)
  case Nil
  show ?case by simp
next
  case (Cons x xs)
  let ?ex' = "if \<not> list_ex (same_text_frame x) ex then ex @ [x] else ex"
  have "list_ex (same_text_frame x) ?ex'" by (auto simp: list_ex_iff same_text_frame_def)
  then have "list_ex (same_text_frame x) (merge_texts ?ex' xs)" by (rule merge_texts_keeps_keys)
  with Cons.IH [of ?ex'] show ?case by (simp add: merge_texts_Cons)
qed

lemma merge_texts_absorbed:
  "list_all (\<lambda>n. list_ex (same_text_frame n) ex) new \<Longrightarrow> merge_texts ex new = ex"
  by (induction new) (simp_all add: merge_texts_Nil merge_texts_Cons)


subsection \<open>Pages\<close>

lemma merge_page_absorbed:
  "list_all (\<lambda>n. list_ex (same_image n) (pd_images ex)) (pd_images pd) \<Longrightarrow>
   list_all (\<lambda>n. list_ex (same_text_frame n) (pd_texts ex)) (pd_texts pd) \<Longrightarrow>
   merge_page ex pd = ex"
  by (simp add: merge_page_def merge_images_absorbed merge_texts_absorbed)

lemma merge_page_twice: "merge_page (merge_page ex pd) pd = merge_page ex pd"
  by (rule merge_page_absorbed) (simp_all add: merge_page_def merge_images_covers merge_texts_covers)

lemma list_all_self_image: "list_all (\<lambda>n. list_ex (same_image n) xs) xs"
  by (auto simp: list_all_iff list_ex_iff same_image_def)

lemma list_all_self_text: "list_all (\<lambda>n. list_ex (same_text_frame n) xs) xs"
  by (auto simp: list_all_iff list_ex_iff same_text_frame_def)

lemma merge_page_self: "merge_page pd pd = pd"
  by (rule merge_page_absorbed) (simp_all add: list_all_self_image list_all_self_text)

lemma merge_spread_content_Nil: "merge_spread_content all [] = all"
  by (simp add: merge_spread_content_def)

lemma merge_spread_content_Cons:
  "merge_spread_content all ((pid, pd) # c) = merge_spread_content (merge_entry pid pd all) c"
  by (simp add: merge_spread_content_def)

lemma dict_get_merge_entry_other:
  "k \<noteq> pid \<Longrightarrow> dict_get (merge_entry pid pd all) k = dict_get all k"
  by (simp add: merge_entry_def dict_get_set_other split: option.splits)

lemma dict_get_merge_entry_same:
  "dict_get (merge_entry pid pd all) pid =
     Some (case dict_get all pid of None \<Rightarrow> pd | Some ex \<Rightarrow> merge_page ex pd)"
  by (simp add: merge_entry_def dict_get_set_same split: option.splits)

lemma dict_get_merge:
  "distinct (dict_keys c) \<Longrightarrow>
   dict_get (merge_spread_content all c) pid =
     (case dict_get c pid of
        None \<Rightarrow> dict_get all pid
      | Some pd \<Rightarrow> Some (case dict_get all pid of None \<Rightarrow> pd | Some ex \<Rightarrow> merge_page ex pd))"
proof (induction c arbitrary: all)
  case Nil
  show ?case by (simp add: merge_spread_content_Nil dict_get_def)
next
  case (Cons e c)
  obtain p d where e: "e = (p, d)" by (cases e)
  from Cons.prems e have dc: "distinct (dict_keys c)" and pc: "p \<notin> set (dict_keys c)"
    by (simp_all add: dict_keys_def)
  from pc have cp: "dict_get c p = None" by (simp add: dict_get_None_keys)
  show ?case
  proof (cases "pid = p")
    case True
    with Cons.IH [OF dc, of "merge_entry p d all"] cp e show ?thesis
      by (simp add: merge_spread_content_Cons dict_get_merge_entry_same dict_get_Cons)
  next
    case False
    then have o: "dict_get (merge_entry p d all) pid = dict_get all pid"
      by (simp add: dict_get_merge_entry_other)
    from Cons.IH [OF dc, of "merge_entry p d all"] e False show ?thesis
      unfolding o by (simp add: merge_spread_content_Cons dict_get_Cons)
  qed
qed

lemma merge_entry_name:
  "dict_get all pid = Some ex \<Longrightarrow>
   \<exists>ex'. dict_get (merge_entry p d all) pid = Some ex' \<and> pd_name ex' = pd_name ex"
  by (cases "pid = p")
    (auto simp: dict_get_merge_entry_same dict_get_merge_entry_other merge_page_def)

lemma merge_spread_content_name:
  "dict_get all pid = Some ex \<Longrightarrow>
   \<exists>ex'. dict_get (merge_spread_content all c) pid = Some ex' \<and> pd_name ex' = pd_name ex"
proof (induction c arbitrary: all ex)
  case Nil
  then show ?case by (simp add: merge_spread_content_Nil)
next
  case (Cons e c)
  obtain p d where e: "e = (p, d)" by (cases e)
  from merge_entry_name [OF Cons.prems, of p d] obtain ex1 where
    g: "dict_get (merge_entry p d all) pid = Some ex1" and n: "pd_name ex1 = pd_name ex" by blast
  from Cons.IH [OF g] n e show ?case by (simp add: merge_spread_content_Cons)
qed

lemma merge_sheets_name:
  "dict_get all pid = Some ex \<Longrightarrow>
   \<exists>ex'. dict_get (fold (\<lambda>c a. merge_spread_content a c) sheets all) pid = Some ex' \<and>
         pd_name ex' = pd_name ex"
proof (induction sheets arbitrary: all ex)
  case Nil
  then show ?case by simp
next
  case (Cons c sheets)
  from merge_spread_content_name [OF Cons.prems, of c] obtain ex1 where
    g: "dict_get (merge_spread_content all c) pid = Some ex1" and n: "pd_name ex1 = pd_name ex"
    by blast
  from Cons.IH [OF g] n show ?case by simp
qed

lemma merge_absorbed_content:
  "list_all (\<lambda>(p, d). \<exists>X. dict_get all p = Some X \<and> merge_page X d = X) c \<Longrightarrow>
   merge_spread_content all c = all"
proof (induction c)
  case Nil
  show ?case by (simp add: merge_spread_content_Nil)
next
  case (Cons e c)
  obtain p d where e: "e = (p, d)" by (cases e)
  from Cons.prems e obtain X where X: "dict_get all p = Some X" "merge_page X d = X" by auto
  then have "merge_entry p d all = all" by (simp add: merge_entry_def dict_set_same_value)
  with Cons e show ?case by (simp add: merge_spread_content_Cons)
qed

lemma merge_spread_content_twice:
  assumes "distinct (dict_keys c)"
  shows "merge_spread_content (merge_spread_content all c) c = merge_spread_content all c"
proof (rule merge_absorbed_content, unfold list_all_iff, rule ballI)
  fix e assume m: "e \<in> set c"
  obtain p d where e: "e = (p, d)" by (cases e)
  from m e assms have g: "dict_get c p = Some d" by (simp add: dict_get_def dict_keys_def)
  have "\<exists>X. dict_get (merge_spread_content all c) p = Some X \<and> merge_page X d = X"
    using dict_get_merge [OF assms, of all p] g
    by (auto simp: merge_page_self merge_page_twice split: option.splits)
  with e show "case e of (p, d) \<Rightarrow>
      \<exists>X. dict_get (merge_spread_content all c) p = Some X \<and> merge_page X d = X" by simp
qed


text \<open>
  Claim C3. Merging the content of a sheet, a dictionary, into the document: a page id
  that is new to the document gets the sheet's entry as it is; for an id that is present
  the name stays, and the lists grow by items of the sheet whose key (uri and image
  element id; text frame id) was not in the document's list, until every item of the sheet
  has its key in the list; other pages are untouched. Merging the same content a second
  time changes nothing, so no count of items changes. Once an id is in the document, its
  name is the same after any number of further sheets.
\<close>

theorem merge_spread_content_dedup:
  assumes "distinct (dict_keys content)"
  shows
  "(\<forall>pid pdata. dict_get content pid = Some pdata \<and> dict_get all pid = None
      \<longrightarrow> dict_get (merge_spread_content all content) pid = Some pdata) \<and>
   (\<forall>pid pdata ex. dict_get content pid = Some pdata \<and> dict_get all pid = Some ex
      \<longrightarrow> (\<exists>imgs txts.
             dict_get (merge_spread_content all content) pid =
               Some \<lparr>pd_name = pd_name ex, pd_images = pd_images ex @ imgs,
                     pd_texts = pd_texts ex @ txts\<rparr> \<and>
             set imgs \<subseteq> set (pd_images pdata) \<and>
             (\<forall>i\<in>set imgs. \<not> list_ex (same_image i) (pd_images ex)) \<and>
             list_all (\<lambda>i. list_ex (same_image i) (pd_images ex @ imgs)) (pd_images pdata) \<and>
             set txts \<subseteq> set (pd_texts pdata) \<and>
             (\<forall>t\<in>set txts. \<not> list_ex (same_text_frame t) (pd_texts ex)) \<and>
             list_all (\<lambda>t. list_ex (same_text_frame t) (pd_texts ex @ txts)) (pd_texts pdata))) \<and>
   (\<forall>pid. dict_get content pid = None
      \<longrightarrow> dict_get (merge_spread_content all content) pid = dict_get all pid) \<and>
   merge_spread_content (merge_spread_content all content) content =
     merge_spread_content all content \<and>
   (\<forall>pid ex sheets. dict_get all pid = Some ex
      \<longrightarrow> (\<exists>ex'. dict_get (fold (\<lambda>c a. merge_spread_content a c) sheets all) pid = Some ex' \<and>
                 pd_name ex' = pd_name ex))"
proof (intro conjI allI impI)
  fix pid pdata
  assume "dict_get content pid = Some pdata \<and> dict_get all pid = None"
  then show "dict_get (merge_spread_content all content) pid = Some pdata"
    by (simp add: dict_get_merge [OF assms])
next
  fix pid pdata ex
  assume a: "dict_get content pid = Some pdata \<and> dict_get all pid = Some ex"
  then have g: "dict_get (merge_spread_content all content) pid = Some (merge_page ex pdata)"
    by (simp add: dict_get_merge [OF assms])
  from merge_images_appends [of "pd_images ex" "pd_images pdata"] obtain imgs where
    i: "merge_images (pd_images ex) (pd_images pdata) = pd_images ex @ imgs"
       "set imgs \<subseteq> set (pd_images pdata)"
       "\<forall>i\<in>set imgs. \<not> list_ex (same_image i) (pd_images ex)" by blast
  from merge_texts_appends [of "pd_texts ex" "pd_texts pdata"] obtain txts where
    t: "merge_texts (pd_texts ex) (pd_texts pdata) = pd_texts ex @ txts"
       "set txts \<subseteq> set (pd_texts pdata)"
       "\<forall>t\<in>set txts. \<not> list_ex (same_text_frame t) (pd_texts ex)" by blast
  have m: "merge_page ex pdata =
             \<lparr>pd_name = pd_name ex, pd_images = pd_images ex @ imgs,
              pd_texts = pd_texts ex @ txts\<rparr>"
    by (simp add: merge_page_def i(1) t(1))
  have ci: "list_all (\<lambda>i. list_ex (same_image i) (pd_images ex @ imgs)) (pd_images pdata)"
    using merge_images_covers [of "pd_images ex" "pd_images pdata"] by (simp only: i(1))
  have ct: "list_all (\<lambda>t. list_ex (same_text_frame t) (pd_texts ex @ txts)) (pd_texts pdata)"
    using merge_texts_covers [of "pd_texts ex" "pd_texts pdata"] by (simp only: t(1))
  from g m i(2,3) t(2,3) ci ct
  show "\<exists>imgs txts.
          dict_get (merge_spread_content all content) pid =
            Some \<lparr>pd_name = pd_name ex, pd_images = pd_images ex @ imgs,
                  pd_texts = pd_texts ex @ txts\<rparr> \<and>
          set imgs \<subseteq> set (pd_images pdata) \<and>
          (\<forall>i\<in>set imgs. \<not> list_ex (same_image i) (pd_images ex)) \<and>
          list_all (\<lambda>i. list_ex (same_image i) (pd_images ex @ imgs)) (pd_images pdata) \<and>
          set txts \<subseteq> set (pd_texts pdata) \<and>
          (\<forall>t\<in>set txts. \<not> list_ex (same_text_frame t) (pd_texts ex)) \<and>
          list_all (\<lambda>t. list_ex (same_text_frame t) (pd_texts ex @ txts)) (pd_texts pdata)"
    by (intro exI [of _ imgs] exI [of _ txts]) simp
next
  fix pid
  assume "dict_get content pid = None"
  then show "dict_get (merge_spread_content all content) pid = dict_get all pid"
    by (simp add: dict_get_merge [OF assms])
next
  show "merge_spread_content (merge_spread_content all content) content =
          merge_spread_content all content"
    by (rule merge_spread_content_twice [OF assms])
next
  fix pid ex sheets
  assume "dict_get all pid = Some ex"
  then show "\<exists>ex'. dict_get (fold (\<lambda>c a. merge_spread_content a c) sheets all) pid = Some ex' \<and>
                  pd_name ex' = pd_name ex"
    by (rule merge_sheets_name)
qed

lemma example_merge:
  "merge_spread_content example_document example_sheet_content =
     [(''p1'', \<lparr>pd_name = ''1'',
               pd_images = [example_image ''a.png'' ''i1'', example_image ''b.png'' ''i2''],
               pd_texts = [example_text ''s1'' ''tf1'']\<rparr>),
      (''p2'', \<lparr>pd_name = ''2'', pd_images = [], pd_texts = [example_text ''s2'' ''tf2'']\<rparr>)]"
  by (simp add: merge_spread_content_def merge_entry_def example_document_def
      example_sheet_content_def dict_get_def merge_page_def merge_images_def merge_texts_def
      same_image_def example_image_def example_text_def)

theorem merge_spread_content_dedup_witness:
  "distinct (dict_keys example_sheet_content) \<and>
   merge_spread_content example_document example_sheet_content =
     [(''p1'', \<lparr>pd_name = ''1'',
               pd_images = [example_image ''a.png'' ''i1'', example_image ''b.png'' ''i2''],
               pd_texts = [example_text ''s1'' ''tf1'']\<rparr>),
      (''p2'', \<lparr>pd_name = ''2'', pd_images = [], pd_texts = [example_text ''s2'' ''tf2'']\<rparr>)] \<and>
   merge_spread_content (merge_spread_content example_document example_sheet_content)
     example_sheet_content =
     merge_spread_content example_document example_sheet_content"
proof -
  have d: "distinct (dict_keys example_sheet_content)"
    by (simp add: dict_keys_def example_sheet_content_def)
  from merge_spread_content_dedup [OF d, of example_document]
  have "merge_spread_content (merge_spread_content example_document example_sheet_content)
          example_sheet_content =
        merge_spread_content example_document example_sheet_content" by blast
  with d example_merge show ?thesis by simp
qed

section \<open>Properties of the output\<close>

lemma normalize_page_id_name:
  "normalize_page g d pid sz = Inr (po, sz') \<Longrightarrow>
   po_page_id po = pid \<and> po_page_name po = name_of_page d pid"
  by (auto simp: normalize_page_def name_of_page_def Let_def
      split: option.splits if_splits prod.splits)

lemma normalize_pages_ids:
  "normalize_pages g d pids sz = Inr out \<Longrightarrow>
   map po_page_id out = pids \<and> map po_page_name out = map (name_of_page d) pids"
proof (induction pids arbitrary: sz out)
  case Nil
  then show ?case by simp
next
  case (Cons pid pids)
  from Cons.prems obtain po sz' rest where
    p: "normalize_page g d pid sz = Inr (po, sz')" and
    r: "normalize_pages g d pids sz' = Inr rest" and
    o: "out = po # rest"
    by (auto split: sum.splits prod.splits)
  from normalize_page_id_name [OF p] Cons.IH [OF r] o show ?case by simp
qed

text \<open>
  Claim C10. The pages of the output are the keys of the document's dictionary sorted by
  the name of the page, in ascending order of the strings; pages of the same name keep the
  order in which their ids entered the dictionary; every page of the dictionary is there
  once. In the example the names \<open>"2"\<close>, \<open>"10"\<close>, \<open>"2"\<close> entered in this order come out as
  \<open>"10"\<close>, \<open>"2"\<close>, \<open>"2"\<close>: the order is that of strings, not that of the document.
\<close>

theorem output_pages_sorted_by_name:
  assumes "output_pages all_page_geometries all_page_data_by_id = Inr out"
  shows
  "map po_page_id out = final_sorted_page_ids all_page_data_by_id \<and>
   map po_page_name out = map (name_of_page all_page_data_by_id) (map po_page_id out) \<and>
   sorted (map po_page_name out) \<and>
   (\<forall>n. filter (\<lambda>pid. name_of_page all_page_data_by_id pid = n) (map po_page_id out) =
        filter (\<lambda>pid. name_of_page all_page_data_by_id pid = n)
          (dict_keys all_page_data_by_id)) \<and>
   set (map po_page_id out) = set (dict_keys all_page_data_by_id) \<and>
   length out = length (dict_keys all_page_data_by_id)"
proof -
  from assms have
    i: "map po_page_id out = final_sorted_page_ids all_page_data_by_id" and
    n: "map po_page_name out =
          map (name_of_page all_page_data_by_id) (final_sorted_page_ids all_page_data_by_id)"
    using normalize_pages_ids unfolding output_pages_def by blast+
  have s: "sorted (map po_page_name out)"
    unfolding n final_sorted_page_ids_def by (rule sorted_sort_key)
  have st: "\<And>n. filter (\<lambda>pid. name_of_page all_page_data_by_id pid = n) (map po_page_id out) =
        filter (\<lambda>pid. name_of_page all_page_data_by_id pid = n)
          (dict_keys all_page_data_by_id)"
    unfolding i final_sorted_page_ids_def by (rule sort_key_stable)
  have se: "set (map po_page_id out) = set (dict_keys all_page_data_by_id)"
    unfolding i final_sorted_page_ids_def by simp
  have "length (map po_page_id out) = length (dict_keys all_page_data_by_id)"
    unfolding i final_sorted_page_ids_def by simp
  then have l: "length out = length (dict_keys all_page_data_by_id)" by simp
  from i n s st se l show ?thesis by simp
qed

lemma example_sorted_ids: "final_sorted_page_ids example_named_pages = [''pa'', ''pb'', ''pc'']"
  by (simp add: final_sorted_page_ids_def example_named_pages_def dict_keys_def
      name_of_page_def dict_get_def)


lemma example_output_pages:
  "output_pages example_geometries example_named_pages =
     Inr [\<lparr>po_page_name = ''10'', po_page_id = ''pa'', po_images = [], po_texts = []\<rparr>,
          \<lparr>po_page_name = ''2'', po_page_id = ''pb'', po_images = [],
            po_texts = [\<lparr>to_Content = ''Hello'', to_TextId = ''tf1'',
                          to_Bounds = \<lparr>aabb_x1 = - 600, aabb_y1 = 0, aabb_x2 = - 600, aabb_y2 = 0\<rparr>,
                          to_page_width = 600, to_page_height = 800\<rparr>]\<rparr>,
          \<lparr>po_page_name = ''2'', po_page_id = ''pc'', po_images = [], po_texts = []\<rparr>]"
  by (simp add: output_pages_def example_sorted_ids)
    (simp add: normalize_page_def example_named_pages_def example_geometries_def dict_get_def
      page_offsets_def example_page_def Let_def text_to_output_def relative_bounds_def
      example_text_def zero_aabb_def)

theorem output_pages_sorted_by_name_witness:
  "output_pages example_geometries example_named_pages =
     Inr [\<lparr>po_page_name = ''10'', po_page_id = ''pa'', po_images = [], po_texts = []\<rparr>,
          \<lparr>po_page_name = ''2'', po_page_id = ''pb'', po_images = [],
            po_texts = [\<lparr>to_Content = ''Hello'', to_TextId = ''tf1'',
                          to_Bounds = \<lparr>aabb_x1 = - 600, aabb_y1 = 0, aabb_x2 = - 600, aabb_y2 = 0\<rparr>,
                          to_page_width = 600, to_page_height = 800\<rparr>]\<rparr>,
          \<lparr>po_page_name = ''2'', po_page_id = ''pc'', po_images = [], po_texts = []\<rparr>] \<and>
   dict_keys example_named_pages = [''pb'', ''pa'', ''pc''] \<and>
   final_sorted_page_ids example_named_pages = [''pa'', ''pb'', ''pc''] \<and>
   sorted [''10'', ''2'', ''2'']"
proof -
  let ?out = "[\<lparr>po_page_name = ''10'', po_page_id = ''pa'', po_images = [], po_texts = []\<rparr>,
          \<lparr>po_page_name = ''2'', po_page_id = ''pb'', po_images = [],
            po_texts = [\<lparr>to_Content = ''Hello'', to_TextId = ''tf1'',
                          to_Bounds = \<lparr>aabb_x1 = - 600, aabb_y1 = 0, aabb_x2 = - 600, aabb_y2 = 0\<rparr>,
                          to_page_width = 600, to_page_height = 800\<rparr>]\<rparr>,
          \<lparr>po_page_name = ''2'', po_page_id = ''pc'', po_images = [], po_texts = []\<rparr>]"
  note t = output_pages_sorted_by_name [OF example_output_pages]
  from t have "map po_page_id ?out = final_sorted_page_ids example_named_pages"
    by (rule conjunct1)
  then have "final_sorted_page_ids example_named_pages = [''pa'', ''pb'', ''pc'']" by simp
  moreover from t have "sorted (map po_page_name ?out)" by (elim conjE)
  then have "sorted [''10'', ''2'', ''2'']" by (simp only: list.map page_output.simps)
  moreover have "dict_keys example_named_pages = [''pb'', ''pa'', ''pc'']"
    by (simp add: dict_keys_def example_named_pages_def)
  ultimately show ?thesis using example_output_pages by simp
qed

subsection \<open>Bounds relative to the page\<close>

text \<open>For a page with geometry, every coordinate of an item's box is reduced by the
  origin \<open>(x1, y1)\<close> of the page's global box, and the item carries the page's width
  \<open>x2 - x1\<close> and height \<open>y2 - y1\<close>.\<close>

lemma normalize_page_with_geometry:
  assumes "dict_get all_page_data_by_id pid = Some pdata"
    and "dict_get all_page_geometries pid = Some info"
  shows "normalize_page all_page_geometries all_page_data_by_id pid page_size =
     Inr (\<lparr>po_page_name = pd_name pdata, po_page_id = pid,
           po_images = map (\<lambda>img.
               \<lparr>io_URI = i_uri img, io_ImageId = i_image_element_id img,
                io_Bounds =
                  \<lparr>aabb_x1 = aabb_x1 (i_global_bounds img) - aabb_x1 (page_global_aabb info),
                   aabb_y1 = aabb_y1 (i_global_bounds img) - aabb_y1 (page_global_aabb info),
                   aabb_x2 = aabb_x2 (i_global_bounds img) - aabb_x1 (page_global_aabb info),
                   aabb_y2 = aabb_y2 (i_global_bounds img) - aabb_y1 (page_global_aabb info)\<rparr>,
                io_page_width = aabb_x2 (page_global_aabb info) - aabb_x1 (page_global_aabb info),
                io_page_height = aabb_y2 (page_global_aabb info) - aabb_y1 (page_global_aabb info)\<rparr>)
             (pd_images pdata),
           po_texts = map (\<lambda>t.
               \<lparr>to_Content = t_content t, to_TextId = t_text_frame_id t,
                to_Bounds =
                  \<lparr>aabb_x1 = aabb_x1 (t_global_bounds t) - aabb_x1 (page_global_aabb info),
                   aabb_y1 = aabb_y1 (t_global_bounds t) - aabb_y1 (page_global_aabb info),
                   aabb_x2 = aabb_x2 (t_global_bounds t) - aabb_x1 (page_global_aabb info),
                   aabb_y2 = aabb_y2 (t_global_bounds t) - aabb_y1 (page_global_aabb info)\<rparr>,
                to_page_width = aabb_x2 (page_global_aabb info) - aabb_x1 (page_global_aabb info),
                to_page_height = aabb_y2 (page_global_aabb info) - aabb_y1 (page_global_aabb info)\<rparr>)
             (pd_texts pdata)\<rparr>,
          Some (aabb_x2 (page_global_aabb info) - aabb_x1 (page_global_aabb info),
                aabb_y2 (page_global_aabb info) - aabb_y1 (page_global_aabb info)))"
  using assms
  by (simp add: normalize_page_def page_offsets_def Let_def image_to_output_def
      text_to_output_def relative_bounds_def)

text \<open>For a page without geometry the offsets are \<open>(0, 0)\<close>, and a page with items needs
  the width and height that an earlier page of the loop left behind.\<close>

lemma normalize_page_without_geometry:
  assumes "dict_get all_page_data_by_id pid = Some pdata"
    and "dict_get all_page_geometries pid = None"
    and "pd_images pdata \<noteq> [] \<or> pd_texts pdata \<noteq> []"
  shows "normalize_page all_page_geometries all_page_data_by_id pid None = Inl UnboundLocalError"
    and "normalize_page all_page_geometries all_page_data_by_id pid (Some (w, h)) =
           Inr (\<lparr>po_page_name = pd_name pdata, po_page_id = pid,
                 po_images = map (image_to_output 0 0 w h) (pd_images pdata),
                 po_texts = map (text_to_output 0 0 w h) (pd_texts pdata)\<rparr>, Some (w, h))"
  using assms by (auto simp: normalize_page_def page_offsets_def Let_def)


section \<open>Properties of the walk: text frames\<close>

lemma find_page_in_list:
  "find_page_for_item_center x y pages = Some pid \<Longrightarrow> \<exists>p\<in>set pages. page_id p = pid"
  by (induction pages) (auto split: if_splits)

lemma dict_get_resolve_story:
  "dict_get (resolve_story stories story_cache sid) sid = Some (resolved_text stories story_cache sid)"
proof -
  have k: "(sid \<in> set (dict_keys story_cache)) = (dict_get story_cache sid \<noteq> None)"
    by (simp add: dict_get_None_keys)
  show ?thesis
    by (cases "dict_get story_cache sid")
      (simp_all add: resolve_story_def resolved_text_def dict_get_set_same k)
qed

lemma process_element_text_frame:
  assumes "tag_local (tag e) = ''TextFrame''"
  shows "process_element pf stories pages e parent acc state =
     process_text_frame stories e (elem_get_default e ''Self'' ''UnknownID'')
       (elem_get e ''ItemTransform'') (fst (item_geometry pf acc e))
       (assigned_page pf pages acc e) state"
  using assms by (simp add: process_element_def Let_def)

text \<open>
  Claim C6, as the code has it. For a text frame, on a sheet whose pages have non-empty ids
  and an entry in the page-content map: nothing changes when no page is assigned or no
  story is referenced; otherwise the story is resolved through the cache, and a text item
  is appended to the assigned page exactly when the resolved text is not empty and no
  text item of that page has the element's id yet, whatever its story. When the story is
  not cached and its file is not found, the empty text is cached and no item is added.
\<close>

theorem text_frame_item_appended_iff:
  assumes "tag_local (tag e) = ''TextFrame''"
    and "list_all (\<lambda>p. page_id p \<noteq> [] \<and> dict_get pcm (page_id p) \<noteq> None) pages"
  shows
  "(assigned_page pf pages acc e = None \<or> \<not> truthy (elem_get e ''ParentStory'')
      \<longrightarrow> process_element pf stories pages e parent acc (pcm, story_cache) = (pcm, story_cache)) \<and>
   (\<forall>pid sid. assigned_page pf pages acc e = Some pid \<and> elem_get e ''ParentStory'' = Some sid \<and>
        sid \<noteq> []
      \<longrightarrow> (\<exists>pd. dict_get pcm pid = Some pd \<and>
             snd (process_element pf stories pages e parent acc (pcm, story_cache)) =
               resolve_story stories story_cache sid \<and>
             fst (process_element pf stories pages e parent acc (pcm, story_cache)) =
               (if resolved_text stories story_cache sid \<noteq> [] \<and>
                   \<not> list_ex (\<lambda>tf. t_text_frame_id tf = elem_get_default e ''Self'' ''UnknownID'')
                        (pd_texts pd)
                then dict_set pcm pid
                       (pd\<lparr>pd_texts := pd_texts pd @
                          [\<lparr>t_story_id = sid,
                            t_text_frame_id = elem_get_default e ''Self'' ''UnknownID'',
                            t_content = resolved_text stories story_cache sid,
                            t_global_bounds = fst (item_geometry pf acc e),
                            t_item_transform = elem_get e ''ItemTransform''\<rparr>]\<rparr>)
                else pcm))) \<and>
   (\<forall>pid sid. assigned_page pf pages acc e = Some pid \<and> elem_get e ''ParentStory'' = Some sid \<and>
        sid \<noteq> [] \<and> dict_get story_cache sid = None \<and> stories sid = None
      \<longrightarrow> process_element pf stories pages e parent acc (pcm, story_cache) =
            (pcm, dict_set story_cache sid []))"
proof (intro conjI allI impI)
  assume "assigned_page pf pages acc e = None \<or> \<not> truthy (elem_get e ''ParentStory'')"
  then show "process_element pf stories pages e parent acc (pcm, story_cache) = (pcm, story_cache)"
    by (cases "elem_get e ''ParentStory''")
      (auto simp: process_element_text_frame [OF assms(1)] process_text_frame_def
        split: option.splits)
next
  fix pid sid
  assume a: "assigned_page pf pages acc e = Some pid \<and> elem_get e ''ParentStory'' = Some sid \<and>
             sid \<noteq> []"
  then have "\<exists>p\<in>set pages. page_id p = pid"
    by (auto simp: assigned_page_def Let_def dest: find_page_in_list)
  with assms(2) obtain pd where pd: "dict_get pcm pid = Some pd" and ne: "pid \<noteq> []"
    by (auto simp: list_all_iff)
  show "\<exists>pd. dict_get pcm pid = Some pd \<and>
             snd (process_element pf stories pages e parent acc (pcm, story_cache)) =
               resolve_story stories story_cache sid \<and>
             fst (process_element pf stories pages e parent acc (pcm, story_cache)) =
               (if resolved_text stories story_cache sid \<noteq> [] \<and>
                   \<not> list_ex (\<lambda>tf. t_text_frame_id tf = elem_get_default e ''Self'' ''UnknownID'')
                        (pd_texts pd)
                then dict_set pcm pid
                       (pd\<lparr>pd_texts := pd_texts pd @
                          [\<lparr>t_story_id = sid,
                            t_text_frame_id = elem_get_default e ''Self'' ''UnknownID'',
                            t_content = resolved_text stories story_cache sid,
                            t_global_bounds = fst (item_geometry pf acc e),
                            t_item_transform = elem_get e ''ItemTransform''\<rparr>]\<rparr>)
                else pcm)"
    using a pd ne
    by (intro exI [of _ pd])
      (simp add: process_element_text_frame [OF assms(1)] process_text_frame_def Let_def
        dict_get_resolve_story)
next
  fix pid sid
  assume a: "assigned_page pf pages acc e = Some pid \<and> elem_get e ''ParentStory'' = Some sid \<and>
             sid \<noteq> [] \<and> dict_get story_cache sid = None \<and> stories sid = None"
  then have "\<exists>p\<in>set pages. page_id p = pid"
    by (auto simp: assigned_page_def Let_def dest: find_page_in_list)
  with assms(2) obtain pd where pd: "dict_get pcm pid = Some pd" and ne: "pid \<noteq> []"
    by (auto simp: list_all_iff)
  from a have r: "resolve_story stories story_cache sid = dict_set story_cache sid []"
    by (simp add: resolve_story_def dict_get_None_keys)
  from a have t: "resolved_text stories story_cache sid = []"
    by (simp add: resolved_text_def)
  from a pd ne r t
  show "process_element pf stories pages e parent acc (pcm, story_cache) =
          (pcm, dict_set story_cache sid [])"
    using dict_get_resolve_story [of stories story_cache sid]
    by (simp add: process_element_text_frame [OF assms(1)] process_text_frame_def Let_def)
qed


lemma split_ex6: "py_split ''10 10 100 200'' = [''10'', ''10'', ''100'', ''200'']"
  by (simp add: py_split_def is_space_def)

lemma ex2_pages: "geometric_pages_of_spread example_float example_two_frames = [example_page_p1]"
  by (simp add: geometric_pages_of_spread_def example_two_frames_def example_frame_def
      findall_descendant_path_def matches_def tag_local_def List.map_filter_def
      page_of_element_def elem_get_def elem_get_default_def PageGeometricInfo_def
      parse_transform_matrix_def parse_geometric_bounds_def split_ex2 example_float_def
      get_axis_aligned_bounding_box_def identity_matrix_def example_page_p1_def)

lemma ex2_frame_tag: "tag_local (tag (example_frame fid sid)) = ''TextFrame''"
  by (simp add: example_frame_def tag_local_def)

lemma ex2_frame_bounds:
  "determined_local_bounds example_float (example_frame fid sid) = (10, 10, 100, 200)"
  by (simp add: determined_local_bounds_def example_frame_def tag_local_def
      get_local_bounds_from_path_geometry_def find_descendant_path_def
      findall_descendant_path_def child_step_def elem_get_def parse_geometric_bounds_def
      split_ex6 example_float_def Let_def)

lemma ex2_frame_matrix:
  "item_global_matrix_of example_float identity_matrix (example_frame fid sid) = (1, 0, 0, 1, 0, 0)"
  by (simp add: item_global_matrix_of_def example_frame_def elem_get_def
      parse_transform_matrix_def identity_matrix_def)

lemma ex2_frame_geometry:
  "item_geometry example_float identity_matrix (example_frame fid sid) =
     (\<lparr>aabb_x1 = 10, aabb_y1 = 10, aabb_x2 = 200, aabb_y2 = 100\<rparr>, (105, 55))"
  by (simp add: item_geometry_def ex2_frame_bounds ex2_frame_matrix item_aabb_and_center_def
      zero_bounds_def get_axis_aligned_bounding_box_def get_item_center_def Let_def)

lemma ex2_frame_page:
  "assigned_page example_float [example_page_p1] identity_matrix (example_frame fid sid) =
     Some ''p1''"
  by (simp add: assigned_page_def ex2_frame_geometry example_page_p1_def is_point_in_rect_def)

lemma ex2_frame_attrs:
  "elem_get (example_frame fid sid) ''ParentStory'' = Some sid"
  "elem_get (example_frame fid sid) ''ItemTransform'' = None"
  "elem_get_default (example_frame fid sid) ''Self'' ''UnknownID'' = fid"
  by (simp_all add: example_frame_def elem_get_def elem_get_default_def)

lemma ex2_first_frame:
  "process_element example_float example_stories [example_page_p1] (example_frame ''tf1'' ''s1'')
     parent identity_matrix
     ([(''p1'', \<lparr>pd_name = ''1'', pd_images = [], pd_texts = []\<rparr>)], []) =
   ([(''p1'', \<lparr>pd_name = ''1'', pd_images = [], pd_texts = [example_first_item]\<rparr>)],
    [(''s1'', ''Hello'')])"
  by (simp add: process_element_text_frame [OF ex2_frame_tag] process_text_frame_def
      ex2_frame_attrs ex2_frame_page ex2_frame_geometry resolve_story_def dict_keys_def
      example_stories_def dict_get_def example_first_item_def Let_def)

lemma ex2_second_frame:
  "process_element example_float example_stories [example_page_p1] (example_frame ''tf1'' ''s2'')
     parent identity_matrix
     ([(''p1'', \<lparr>pd_name = ''1'', pd_images = [], pd_texts = [example_first_item]\<rparr>)],
      [(''s1'', ''Hello'')]) =
   ([(''p1'', \<lparr>pd_name = ''1'', pd_images = [], pd_texts = [example_first_item]\<rparr>)],
    [(''s1'', ''Hello''), (''s2'', ''World'')])"
  by (simp add: process_element_text_frame [OF ex2_frame_tag] process_text_frame_def
      ex2_frame_attrs ex2_frame_page ex2_frame_geometry resolve_story_def dict_keys_def
      example_stories_def dict_get_def example_first_item_def Let_def)

lemma walk_text_frame:
  "process_spread_element_recursively pf stories pages (example_frame fid sid) parent acc depth
     state =
   process_element pf stories pages (example_frame fid sid) parent acc state"
  by (simp add: example_frame_def tag_local_def Let_def)

lemma ex2_sheet:
  "get_page_content_from_spread example_float example_stories example_two_frames [] =
     (Some ([(''p1'', \<lparr>pd_name = ''1'', pd_images = [], pd_texts = [example_first_item]\<rparr>)],
            [example_page_p1]),
      [(''s1'', ''Hello''), (''s2'', ''World'')])"
proof -
  have c: "filter (\<lambda>child_el. tag_local (tag child_el) \<notin>
                     set [''Page'', ''FlattenerPreference'', ''Properties''])
             (children example_two_frames) =
           [example_frame ''tf1'' ''s1'', example_frame ''tf1'' ''s2'']"
    by (simp add: example_two_frames_def ex2_frame_tag) (simp add: tag_local_def)
  have m: "parse_transform_matrix example_float (elem_get example_two_frames ''ItemTransform'') =
           identity_matrix"
    by (simp add: example_two_frames_def elem_get_def parse_transform_matrix_def)
  have i: "initial_pages_content [example_page_p1] =
           [(''p1'', \<lparr>pd_name = ''1'', pd_images = [], pd_texts = []\<rparr>)]"
    by (simp add: initial_pages_content_def example_page_p1_def dict_keys_def)
  show ?thesis
    unfolding get_page_content_from_spread_def ex2_pages m
    using c by (simp add: Let_def i walk_text_frame ex2_first_frame ex2_second_frame)
qed

text \<open>
  Against claim C6 as stated: the second text frame of the example sheet is assigned to
  page \<open>p1\<close>, references story \<open>s2\<close> with the text \<open>"World"\<close>, and the pair of story \<open>s2\<close> and
  element \<open>tf1\<close> is not recorded for the page; the walk adds no item for it, because an
  item with the element id \<open>tf1\<close> is recorded.
\<close>

theorem text_frame_same_id_other_story_not_added:
  "assigned_page example_float (geometric_pages_of_spread example_float example_two_frames)
     identity_matrix (example_frame ''tf1'' ''s2'') = Some ''p1'' \<and>
   elem_get (example_frame ''tf1'' ''s2'') ''ParentStory'' = Some ''s2'' \<and>
   resolved_text example_stories [(''s1'', ''Hello'')] ''s2'' = ''World'' \<and>
   \<not> list_ex (\<lambda>tf. t_story_id tf = ''s2'' \<and> t_text_frame_id tf = ''tf1'') [example_first_item] \<and>
   fst (process_element example_float example_stories
          (geometric_pages_of_spread example_float example_two_frames)
          (example_frame ''tf1'' ''s2'') example_two_frames identity_matrix
          ([(''p1'', \<lparr>pd_name = ''1'', pd_images = [], pd_texts = [example_first_item]\<rparr>)],
           [(''s1'', ''Hello'')])) =
     [(''p1'', \<lparr>pd_name = ''1'', pd_images = [], pd_texts = [example_first_item]\<rparr>)] \<and>
   map_option fst
     (fst (get_page_content_from_spread example_float example_stories example_two_frames [])) =
     Some [(''p1'', \<lparr>pd_name = ''1'', pd_images = [], pd_texts = [example_first_item]\<rparr>)]"
  by (simp add: ex2_pages ex2_frame_page ex2_frame_attrs ex2_second_frame ex2_sheet)
    (simp add: resolved_text_def dict_get_def example_stories_def example_first_item_def)

theorem text_frame_item_appended_iff_witness:
  "tag_local (tag (example_frame ''tf1'' ''s1'')) = ''TextFrame'' \<and>
   list_all (\<lambda>p. page_id p \<noteq> [] \<and>
               dict_get [(''p1'', \<lparr>pd_name = ''1'', pd_images = [], pd_texts = []\<rparr>)] (page_id p)
                 \<noteq> None) [example_page_p1] \<and>
   assigned_page example_float [example_page_p1] identity_matrix (example_frame ''tf1'' ''s1'') =
     Some ''p1'' \<and>
   fst (process_element example_float example_stories [example_page_p1]
          (example_frame ''tf1'' ''s1'') example_two_frames identity_matrix
          ([(''p1'', \<lparr>pd_name = ''1'', pd_images = [], pd_texts = []\<rparr>)], [])) =
     [(''p1'', \<lparr>pd_name = ''1'', pd_images = [], pd_texts = [example_first_item]\<rparr>)]"
proof -
  let ?pcm = "[(''p1'', \<lparr>pd_name = ''1'', pd_images = [], pd_texts = []\<rparr>)]"
  have h1: "tag_local (tag (example_frame ''tf1'' ''s1'')) = ''TextFrame''"
    by (rule ex2_frame_tag)
  have h2: "list_all (\<lambda>p. page_id p \<noteq> [] \<and> dict_get ?pcm (page_id p) \<noteq> None) [example_page_p1]"
    by (simp add: example_page_p1_def dict_get_def)
  have r: "resolved_text example_stories [] ''s1'' = ''Hello''"
    by (simp add: resolved_text_def dict_get_def example_stories_def)
  from text_frame_item_appended_iff [OF h1 h2, of example_float identity_matrix example_stories
      example_two_frames "[]", THEN conjunct2, THEN conjunct1, THEN spec, THEN spec,
      of "''p1''" "''s1''"]
  have "fst (process_element example_float example_stories [example_page_p1]
          (example_frame ''tf1'' ''s1'') example_two_frames identity_matrix (?pcm, [])) =
     [(''p1'', \<lparr>pd_name = ''1'', pd_images = [], pd_texts = [example_first_item]\<rparr>)]"
    by (simp add: ex2_frame_page ex2_frame_attrs ex2_frame_geometry r dict_get_def
        example_first_item_def)
  with h1 h2 ex2_frame_page show ?thesis by simp
qed

section \<open>Properties of the walk: depth\<close>









end
